theory Spec2Isabelle
  imports Main "HOL-Library.List_Lexorder"
begin

section \<open>The zgrab HTTP result parser of IVRE (ivre/zgrabout.py)\<close>

text \<open>
  The module holds one function, \<open>zgrap_parser_http(data, hostrec)\<close>. It reads a value
  decoded from JSON, mutates it in two places, may append to the host record's list of
  host names, may log a warning, and returns a dictionary or raises. The embedding keeps
  all of this: the function below returns the value or the exception together with the
  argument as it is after the call, the host record after the call and the warnings.

  Python 3 is modelled (dictionaries iterate in insertion order, \<open>int()\<close> accepts
  underscores between digits). Text is a list of characters with code points below 256;
  JSON numbers are integers.
\<close>

subsection \<open>Values decoded from JSON, exceptions\<close>

datatype json =
    JNull
  | JBool bool
  | JInt int
  | JStr string
  | JList "json list"
  | JObj "(string \<times> json) list"

text \<open>
  The exceptions the function can raise. \<open>NonStringKey\<close> is not an exception of Python:
  it marks the two statements (\<open>data.update\<close> on a list of pairs, line 51, and
  \<open>headers[unk['key']] = ...\<close>, line 174) at an input that makes Python store a dictionary
  key that is a number, a boolean or \<open>None\<close>. No dictionary decoded from JSON has such
  a key and \<open>JObj\<close> cannot hold one, so the model stops there.
\<close>

datatype pyerr = KeyError | TypeError | AttributeError | ValueError | IndexError | NonStringKey

text \<open>Control flow of a block of the function: it raises, returns early, or falls through.\<close>

datatype 'a flow = Raise pyerr | Return json | Next 'a

subsection \<open>Dictionaries\<close>

type_synonym dict = "(string \<times> json) list"

text \<open>\<open>d[k] = v\<close>: an existing key keeps its place, a new key goes last.\<close>

fun dict_set :: "dict \<Rightarrow> string \<Rightarrow> json \<Rightarrow> dict" where
  "dict_set [] k v = [(k, v)]"
| "dict_set ((k', v') # d) k v =
     (if k' = k then (k', v) # d else (k', v') # dict_set d k v)"

text \<open>The dictionary left by \<open>d.pop(k)\<close>.\<close>

definition dict_del :: "dict \<Rightarrow> string \<Rightarrow> dict" where
  "dict_del d k = filter (\<lambda>kv. fst kv \<noteq> k) d"

text \<open>\<open>d.update(e)\<close> for a dictionary \<open>e\<close>.\<close>

definition dict_update :: "dict \<Rightarrow> dict \<Rightarrow> dict" where
  "dict_update d e = foldl (\<lambda>acc kv. dict_set acc (fst kv) (snd kv)) d e"

subsection \<open>Operations of Python on decoded values\<close>

text \<open>Truth value, as tested by \<open>if x:\<close> and \<open>not x\<close>.\<close>

fun truthy :: "json \<Rightarrow> bool" where
  "truthy JNull = False"
| "truthy (JBool b) = b"
| "truthy (JInt n) = (n \<noteq> 0)"
| "truthy (JStr s) = (s \<noteq> [])"
| "truthy (JList xs) = (xs \<noteq> [])"
| "truthy (JObj d) = (d \<noteq> [])"

definition startswith :: "string \<Rightarrow> string \<Rightarrow> bool" where
  "startswith s p = (take (length p) s = p)"

definition endswith :: "string \<Rightarrow> string \<Rightarrow> bool" where
  "endswith s p = (length p \<le> length s \<and> drop (length s - length p) s = p)"

fun contains_sub :: "string \<Rightarrow> string \<Rightarrow> bool" where
  "contains_sub [] p = (p = [])"
| "contains_sub (c # cs) p = (startswith (c # cs) p \<or> contains_sub cs p)"

text \<open>\<open>k in x\<close> for a string \<open>k\<close>: a key of a dictionary, an element of a list, a
  substring of a string; any other value is not iterable.\<close>

fun py_contains :: "string \<Rightarrow> json \<Rightarrow> pyerr + bool" where
  "py_contains k (JObj d) = Inr (k \<in> fst ` set d)"
| "py_contains k (JList xs) = Inr (JStr k \<in> set xs)"
| "py_contains k (JStr s) = Inr (contains_sub s k)"
| "py_contains k _ = Inl TypeError"

text \<open>\<open>x[k]\<close> for a string \<open>k\<close>: only a dictionary can be subscripted by a string.\<close>

fun py_getitem :: "json \<Rightarrow> string \<Rightarrow> pyerr + json" where
  "py_getitem (JObj d) k = (case map_of d k of None \<Rightarrow> Inl KeyError | Some v \<Rightarrow> Inr v)"
| "py_getitem _ k = Inl TypeError"

text \<open>\<open>x.get(k, dflt)\<close>: only dictionaries have the method (\<open>x.get(k)\<close> is
  \<open>py_get x k JNull\<close>).\<close>

fun py_get :: "json \<Rightarrow> string \<Rightarrow> json \<Rightarrow> pyerr + json" where
  "py_get (JObj d) k dflt = (case map_of d k of None \<Rightarrow> Inr dflt | Some v \<Rightarrow> Inr v)"
| "py_get _ k dflt = Inl AttributeError"

text \<open>\<open>d.get(k, dflt)\<close> once \<open>d\<close> is known to be a dictionary.\<close>

definition dict_get :: "dict \<Rightarrow> string \<Rightarrow> json \<Rightarrow> json" where
  "dict_get d k dflt = (case map_of d k of None \<Rightarrow> dflt | Some v \<Rightarrow> v)"

text \<open>The elements \<open>for x in v\<close> runs through: the elements of a list, the keys of a
  dictionary, the characters of a string.\<close>

fun py_iter :: "json \<Rightarrow> pyerr + json list" where
  "py_iter (JList xs) = Inr xs"
| "py_iter (JObj d) = Inr (map (\<lambda>kv. JStr (fst kv)) d)"
| "py_iter (JStr s) = Inr (map (\<lambda>c. JStr [c]) s)"
| "py_iter _ = Inl TypeError"

text \<open>Lists and dictionaries cannot be hashed (as a dictionary key or a set element).\<close>

fun hashable :: "json \<Rightarrow> bool" where
  "hashable (JList xs) = False"
| "hashable (JObj d) = False"
| "hashable _ = True"

subsection \<open>\<open>data.update(data.pop('result'))\<close>, lines 50 and 51\<close>

text \<open>One element of a sequence given to \<open>dict.update\<close>: it must be a sequence of
  length two, whose first element is the key.\<close>

fun update_item :: "json \<Rightarrow> pyerr + (string \<times> json)" where
  "update_item (JList [k, v]) =
     (case k of JStr s \<Rightarrow> Inr (s, v)
      | JList _ \<Rightarrow> Inl TypeError | JObj _ \<Rightarrow> Inl TypeError
      | _ \<Rightarrow> Inl NonStringKey)"
| "update_item (JList _) = Inl ValueError"
| "update_item (JStr [a, b]) = Inr ([a], JStr [b])"
| "update_item (JStr _) = Inl ValueError"
| "update_item (JObj [(k1, _), (k2, _)]) = Inr (k1, JStr k2)"
| "update_item (JObj _) = Inl ValueError"
| "update_item _ = Inl TypeError"

text \<open>The items are stored one by one: those before a failing item stay stored.\<close>

fun update_items :: "dict \<Rightarrow> json list \<Rightarrow> pyerr option \<times> dict" where
  "update_items d [] = (None, d)"
| "update_items d (x # xs) =
     (case update_item x of
        Inl e \<Rightarrow> (Some e, d)
      | Inr (k, v) \<Rightarrow> update_items (dict_set d k v) xs)"

text \<open>\<open>d.update(v)\<close> for any value \<open>v\<close>.\<close>

fun py_update :: "dict \<Rightarrow> json \<Rightarrow> pyerr option \<times> dict" where
  "py_update d (JObj e) = (None, dict_update d e)"
| "py_update d (JList xs) = update_items d xs"
| "py_update d (JStr s) = (if s = [] then (None, d) else (Some ValueError, d))"
| "py_update d _ = (Some TypeError, d)"

text \<open>Lines 50 and 51. The key is popped before \<open>update\<close> runs, so it is gone also
  when \<open>update\<close> raises.\<close>

definition reconcile :: "json \<Rightarrow> pyerr option \<times> json" where
  "reconcile data =
     (case py_contains ''result'' data of
        Inl e \<Rightarrow> (Some e, data)
      | Inr False \<Rightarrow> (None, data)
      | Inr True \<Rightarrow>
          (case data of
             JObj d \<Rightarrow>
               (case py_update (dict_del d ''result'') (dict_get d ''result'' JNull) of
                  (err, d') \<Rightarrow> (err, JObj d'))
           | JList xs \<Rightarrow> (Some TypeError, data)
           | _ \<Rightarrow> (Some AttributeError, data)))"

subsection \<open>The required fields, lines 52 to 65\<close>

text \<open>The two warnings. The second message lists the missing names in the iteration
  order of a Python set, which the language leaves open: the model keeps the names, in
  the order of \<open>needed_fields\<close>, and the theorems speak of their set only.\<close>

datatype warning = Missing_response | Missing_fields "string list"

definition needed_fields :: "string list" where
  "needed_fields = [''request'', ''status_code'', ''status_line'']"

text \<open>\<open>needed_fields.difference(resp)\<close>: every element of \<open>resp\<close> is hashed.\<close>

definition missing_fields :: "json \<Rightarrow> pyerr + string list" where
  "missing_fields resp =
     (case py_iter resp of
        Inl e \<Rightarrow> Inl e
      | Inr xs \<Rightarrow>
          (if \<forall>x \<in> set xs. hashable x
           then Inr (filter (\<lambda>f. JStr f \<notin> set xs) needed_fields)
           else Inl TypeError))"

text \<open>Lines 52 to 66: the response and the request, both dictionaries from here on
  (\<open>req.get\<close> of line 66 needs one), and the URL.\<close>

definition required_fields :: "json \<Rightarrow> (warning option \<times> (dict \<times> dict \<times> json) flow)" where
  "required_fields data =
     (case py_contains ''response'' data of
        Inl e \<Rightarrow> (None, Raise e)
      | Inr False \<Rightarrow> (Some Missing_response, Return (JObj []))
      | Inr True \<Rightarrow>
          (case py_getitem data ''response'' of
             Inl e \<Rightarrow> (None, Raise e)
           | Inr resp \<Rightarrow>
               (case missing_fields resp of
                  Inl e \<Rightarrow> (None, Raise e)
                | Inr (f # fs) \<Rightarrow> (Some (Missing_fields (f # fs)), Return (JObj []))
                | Inr [] \<Rightarrow>
                    (case py_getitem resp ''request'' of
                       Inl e \<Rightarrow> (None, Raise e)
                     | Inr req \<Rightarrow>
                         (case py_get req ''url'' JNull of
                            Inl e \<Rightarrow> (None, Raise e)
                          | Inr url \<Rightarrow>
                              (case (resp, req) of
                                 (JObj respd, JObj reqd) \<Rightarrow> (None, Next (respd, reqd, url))
                               | _ \<Rightarrow> (None, Raise TypeError)))))))"

subsection \<open>The collaborators and the host record\<close>

text \<open>
  The functions of \<open>ivre.utils\<close> and \<open>ivre.xmlnmap\<close> that the parser calls, and three
  operations of the Python runtime, are parameters of the model.
  \<^item> \<open>create_ssl_cert\<close>: from the bytes of the encoded certificate to the text and the
    list of certificate records (\<open>output, info\<close>).
  \<^item> \<open>cert_hostnames\<close>: Modelled from the spec: \<open>add_cert_hostnames(cert, hostnames)\<close> of
    \<open>ivre.xmlnmap\<close> is not part of the sources; the spec gives its contract as
    "mutates hostnameList by appending". The parameter returns what is appended for a
    certificate and the list so far.
  \<^item> \<open>create_http_ls\<close>: from the body and the URL to a script, or \<open>None\<close>.
  \<^item> \<open>nmap_decode_data\<close>: from a text to bytes; it is called on values the parser has not
    checked, so it may raise.
  \<^item> \<open>nmap_encode_data\<close>: from bytes to a text.
  \<^item> \<open>match_nmap_svc_fp\<close>: from the banner (with \<open>proto="tcp"\<close>, \<open>probe="GetRequest"\<close>) to a
    dictionary of fields, empty when nothing matches.
  \<^item> \<open>str_encode\<close>: \<open>s.encode()\<close>, the UTF-8 bytes of a text.
  \<^item> \<open>str_other\<close>: \<open>str(v)\<close>, as \<open>%s\<close> formats it, for a value that is not a text.
  \<^item> \<open>set_order\<close>: the order in which a Python set built from the given texts iterates.

  Apart from \<open>nmap_decode_data\<close> the collaborators are taken to return on every input they
  are given here; what they return is left open.
\<close>

record env =
  create_ssl_cert :: "string \<Rightarrow> string \<times> json list"
  cert_hostnames :: "json \<Rightarrow> json list \<Rightarrow> json list"
  create_http_ls :: "string \<Rightarrow> json \<Rightarrow> json option"
  nmap_decode_data :: "json \<Rightarrow> pyerr + string"
  nmap_encode_data :: "string \<Rightarrow> string"
  match_nmap_svc_fp :: "string \<Rightarrow> dict"
  str_encode :: "string \<Rightarrow> string"
  str_other :: "json \<Rightarrow> string"
  set_order :: "string list \<Rightarrow> string list"

text \<open>The host record: the address, the list of host names when the key is there, and
  whatever else the caller keeps in it (the extension of the record). The address is always
  there: line 117 reads \<open>hostrec['addr']\<close>, and a record without it is not a value of the
  type.\<close>

record hostrec =
  addr :: string
  hostnames :: "json list option"

text \<open>\<open>add_cert_hostnames(cert, hostrec.setdefault('hostnames', []))\<close>, lines 94 and 95:
  \<open>setdefault\<close> gives the list of the record, a new empty one when the key is missing.\<close>

definition hostname_list :: "'a hostrec_scheme \<Rightarrow> json list" where
  "hostname_list h = (case hostnames h of None \<Rightarrow> [] | Some l \<Rightarrow> l)"

text \<open>Modelled from the spec: \<open>add_cert_hostnames\<close> of \<open>ivre.xmlnmap\<close> is not part of the
  sources. The spec says that it "mutates hostnameList by appending": the list after the
  call is the list before it, followed by what \<open>cert_hostnames\<close> gives for the certificate.\<close>

definition add_cert_hostnames :: "env \<Rightarrow> 'a hostrec_scheme \<Rightarrow> json \<Rightarrow> 'a hostrec_scheme" where
  "add_cert_hostnames env h cert =
     (let hs = hostname_list h
      in h\<lparr>hostnames := Some (hs @ cert_hostnames env cert hs)\<rparr>)"

text \<open>\<open>'%s' % v\<close>.\<close>

definition py_str :: "env \<Rightarrow> json \<Rightarrow> string" where
  "py_str env v = (case v of JStr s \<Rightarrow> s | _ \<Rightarrow> str_other env v)"

text \<open>\<open>res.setdefault('scripts', []).append(script)\<close>: a value under \<open>'scripts'\<close> that is
  not a list has no \<open>append\<close>.\<close>

definition append_script :: "dict \<Rightarrow> json \<Rightarrow> pyerr + dict" where
  "append_script res script =
     (case map_of res ''scripts'' of
        None \<Rightarrow> Inr (dict_set res ''scripts'' (JList [script]))
      | Some (JList xs) \<Rightarrow> Inr (dict_set res ''scripts'' (JList (xs @ [script])))
      | Some _ \<Rightarrow> Inl AttributeError)"

subsection \<open>TLS, lines 67 to 95\<close>

definition base_record :: dict where
  "base_record =
     [(''service_name'', JStr ''http''), (''service_method'', JStr ''probed''),
      (''state_state'', JStr ''open''), (''state_reason'', JStr ''response''),
      (''protocol'', JStr ''tcp'')]"

text \<open>Lines 70 to 78; \<open>JNull\<close> is \<open>None\<close>. Only \<open>KeyError\<close> is caught.\<close>

definition find_tls :: "dict \<Rightarrow> pyerr + json" where
  "find_tls req =
     (case map_of req ''tls_handshake'' of
        Some v \<Rightarrow> Inr v
      | None \<Rightarrow>
          (case map_of req ''tls_log'' of
             None \<Rightarrow> Inr JNull
           | Some l \<Rightarrow>
               (case py_getitem l ''handshake_log'' of
                  Inl KeyError \<Rightarrow> Inr JNull
                | Inl e \<Rightarrow> Inl e
                | Inr v \<Rightarrow> Inr v)))"

text \<open>Line 82, \<open>tls['server_certificates']['certificate']['raw']\<close>: \<open>None\<close> stands for the
  caught \<open>KeyError\<close>.\<close>

definition find_cert :: "json \<Rightarrow> pyerr + json option" where
  "find_cert tls =
     (case py_getitem tls ''server_certificates'' of
        Inl KeyError \<Rightarrow> Inr None
      | Inl e \<Rightarrow> Inl e
      | Inr a \<Rightarrow>
          (case py_getitem a ''certificate'' of
             Inl KeyError \<Rightarrow> Inr None
           | Inl e \<Rightarrow> Inl e
           | Inr b \<Rightarrow>
               (case py_getitem b ''raw'' of
                  Inl KeyError \<Rightarrow> Inr None
                | Inl e \<Rightarrow> Inl e
                | Inr c \<Rightarrow> Inr (Some c))))"

text \<open>Line 80 and the script of lines 88 to 92.\<close>

definition ssl_record :: dict where
  "ssl_record = dict_set base_record ''service_tunnel'' (JStr ''ssl'')"

definition ssl_cert_script :: "string \<Rightarrow> json list \<Rightarrow> json" where
  "ssl_cert_script output info =
     JObj [(''id'', JStr ''ssl-cert''), (''output'', JStr output), (''ssl-cert'', JList info)]"

text \<open>Lines 67 to 95: the record so far and the host record. \<open>cert.encode()\<close> needs a
  text.\<close>

definition tls_stage :: "env \<Rightarrow> dict \<Rightarrow> 'a hostrec_scheme \<Rightarrow> pyerr + (dict \<times> 'a hostrec_scheme)" where
  "tls_stage env req hostrec =
     (case find_tls req of
        Inl e \<Rightarrow> Inl e
      | Inr tls \<Rightarrow>
          if tls = JNull then Inr (base_record, hostrec)
          else
            (case find_cert tls of
               Inl e \<Rightarrow> Inl e
             | Inr None \<Rightarrow> Inr (ssl_record, hostrec)
             | Inr (Some c) \<Rightarrow>
                 (case c of
                    JStr cert \<Rightarrow>
                      (case create_ssl_cert env (str_encode env cert) of
                         (output, info) \<Rightarrow>
                           if info \<noteq> []
                           then (case append_script ssl_record (ssl_cert_script output info) of
                                   Inl e \<Rightarrow> Inl e
                                 | Inr res \<Rightarrow>
                                     Inr (res, foldl (add_cert_hostnames env) hostrec info))
                           else Inr (ssl_record, hostrec))
                  | _ \<Rightarrow> Inl AttributeError)))"

subsection \<open>Texts and integers\<close>

definition is_digit :: "char \<Rightarrow> bool" where
  "is_digit c = (48 \<le> (of_char c :: nat) \<and> (of_char c :: nat) \<le> 57)"

definition digit_val :: "char \<Rightarrow> int" where
  "digit_val c = int (of_char c) - 48"

text \<open>The characters \<open>int()\<close> and \<open>str.strip()\<close> take for white space, below 256.\<close>

definition is_space :: "char \<Rightarrow> bool" where
  "is_space c = ((of_char c :: nat) \<in> {9, 10, 11, 12, 13, 28, 29, 30, 31, 32, 133, 160})"

definition strip :: "string \<Rightarrow> string" where
  "strip s = rev (dropWhile is_space (rev (dropWhile is_space s)))"

text \<open>Digits after a first digit: more digits, or one underscore followed by a digit.\<close>

fun int_digits :: "string \<Rightarrow> int \<Rightarrow> int option" where
  "int_digits [] acc = Some acc"
| "int_digits [c] acc = (if is_digit c then Some (10 * acc + digit_val c) else None)"
| "int_digits (c # d # ds) acc =
     (if is_digit c then int_digits (d # ds) (10 * acc + digit_val c)
      else if c = CHR ''_'' \<and> is_digit d then int_digits ds (10 * acc + digit_val d)
      else None)"

definition int_unsigned :: "string \<Rightarrow> int option" where
  "int_unsigned s =
     (case s of [] \<Rightarrow> None
      | c # cs \<Rightarrow> if is_digit c then int_digits cs (digit_val c) else None)"

text \<open>\<open>int(s)\<close> for a text \<open>s\<close>; \<open>None\<close> is \<open>ValueError\<close>.\<close>

definition py_int :: "string \<Rightarrow> int option" where
  "py_int s =
     (case strip s of
        [] \<Rightarrow> None
      | c # cs \<Rightarrow>
          if c = CHR ''-'' then map_option uminus (int_unsigned cs)
          else if c = CHR ''+'' then int_unsigned cs
          else int_unsigned (c # cs))"

text \<open>\<open>'%d' % n\<close>.\<close>

definition digit_char :: "nat \<Rightarrow> char" where
  "digit_char n = ''0123456789'' ! n"

fun str_nat :: "nat \<Rightarrow> string" where
  "str_nat n = (if n < 10 then [digit_char n] else str_nat (n div 10) @ [digit_char (n mod 10)])"

declare str_nat.simps [simp del]

definition str_int :: "int \<Rightarrow> string" where
  "str_int i = (if i < 0 then CHR ''-'' # str_nat (nat (- i)) else str_nat (nat i))"

text \<open>\<open>sep.join(xs)\<close>.\<close>

fun join :: "string \<Rightarrow> string list \<Rightarrow> string" where
  "join sep [] = []"
| "join sep [x] = x"
| "join sep (x # y # ys) = x @ sep @ join sep (y # ys)"

text \<open>\<open>s.split(c)\<close> for a character \<open>c\<close>: the second argument holds the piece being read.\<close>

fun split_on :: "char \<Rightarrow> string \<Rightarrow> string \<Rightarrow> string list" where
  "split_on c [] cur = [rev cur]"
| "split_on c (x # xs) cur = (if x = c then rev cur # split_on c xs [] else split_on c xs (x # cur))"

text \<open>\<open>s.split(':', 1)[1]\<close> for a text that holds a colon: what follows the first colon.\<close>

definition after_colon :: "string \<Rightarrow> string" where
  "after_colon s = drop 1 (dropWhile (\<lambda>c. c \<noteq> CHR '':'') s)"

definition newline :: string where
  "newline = [CHR 0x0A]"

definition crlf :: string where
  "crlf = [CHR 0x0D, CHR 0x0A]"

subsection \<open>The version marker of Outlook Web Access, line 34\<close>

text \<open>
  \<open>_EXPR_OWA_VERSION = re.compile('"/owa/(?:auth/)?((?:[0-9]+\\.)+[0-9]+)/')\<close>.
  The pattern opens with a double quote. After the prefix and the optional \<open>auth/\<close> the
  group is made of digits and dots and is followed by a slash, so it is the longest run
  of digits and dots there, and no backtracking finds another match at the same place.
\<close>

definition owa_prefix :: string where
  "owa_prefix = CHR 0x22 # ''/owa/''"

definition ver_char :: "char \<Rightarrow> bool" where
  "ver_char c = (is_digit c \<or> c = CHR ''.'')"

text \<open>\<open>(?:[0-9]+\\.)+[0-9]+\<close> on a text of digits and dots.\<close>

definition dotted_version :: "string \<Rightarrow> bool" where
  "dotted_version v = (let parts = split_on CHR ''.'' v [] in 2 \<le> length parts \<and> (\<forall>p \<in> set parts. p \<noteq> []))"

text \<open>A match that starts at the head of the text: the group and the length of the match.\<close>

definition owa_match_at :: "string \<Rightarrow> (string \<times> nat) option" where
  "owa_match_at s =
     (if startswith s owa_prefix then
        (let r = drop 6 s;
             a = (if startswith r ''auth/'' then 5 else 0);
             v = takeWhile ver_char (drop a r);
             t = dropWhile ver_char (drop a r)
         in if dotted_version v \<and> startswith t ''/'' then Some (v, 6 + a + length v + 1) else None)
      else None)"

text \<open>\<open>finditer\<close>: the matches from left to right, each search starting where the last
  match ended. The first argument counts the characters of the last match still to skip.\<close>

fun owa_finditer :: "nat \<Rightarrow> string \<Rightarrow> string list" where
  "owa_finditer k [] = []"
| "owa_finditer (Suc k) (c # cs) = owa_finditer k cs"
| "owa_finditer 0 (c # cs) =
     (case owa_match_at (c # cs) of
        Some (v, n) \<Rightarrow> v # owa_finditer (n - 1) cs
      | None \<Rightarrow> owa_finditer 0 cs)"

text \<open>The sort key of line 136, \<open>[int(x) for x in v.split('.')]\<close>; the pieces of a
  matched version are runs of digits.\<close>

definition digits_value :: "string \<Rightarrow> int" where
  "digits_value s = foldl (\<lambda>acc c. 10 * acc + digit_val c) 0 s"

definition version_key :: "string \<Rightarrow> int list" where
  "version_key v = map digits_value (split_on CHR ''.'' v [])"

text \<open>\<open>set(...)\<close> of line 129, in the order in which the set iterates. The parameter is
  followed wherever it lists each element of the set once; elsewhere the order of first
  occurrence stands in.\<close>

definition py_set :: "env \<Rightarrow> string list \<Rightarrow> string list" where
  "py_set env xs =
     (let ys = set_order env xs
      in if distinct ys \<and> set ys = set xs then ys else remdups xs)"

text \<open>Lines 129 to 136. \<open>sorted\<close> is stable, as \<open>sort_key\<close> is; lists of integers compare
  as in Python, by the first difference, a proper prefix being smaller.\<close>

definition owa_versions :: "env \<Rightarrow> string \<Rightarrow> string list" where
  "owa_versions env body = sort_key version_key (py_set env (owa_finditer 0 body))"

subsection \<open>The URL, the port and the two detectors, lines 96 to 160\<close>

text \<open>Lines 97 to 107.\<close>

definition url_port :: "dict \<Rightarrow> pyerr + int" where
  "url_port url =
     (let host = dict_get url ''host'' (JStr []) in
      case py_contains '':'' host of
        Inl e \<Rightarrow> Inl e
      | Inr has_colon \<Rightarrow>
          (case (if has_colon
                 then (case host of
                         JStr h \<Rightarrow> Inr (py_int (after_colon h))
                       | _ \<Rightarrow> Inl AttributeError)
                 else Inr None) of
             Inl e \<Rightarrow> Inl e
           | Inr (Some port) \<Rightarrow> Inr port
           | Inr None \<Rightarrow>
               Inr (if dict_get url ''scheme'' JNull = JStr ''https'' then 443 else 80)))"

text \<open>Line 117.\<close>

definition git_repository :: "string \<Rightarrow> int \<Rightarrow> string \<Rightarrow> string" where
  "git_repository address port path =
     address @ '':'' @ str_int port @ take (length path - 5) path"

definition git_script :: "string \<Rightarrow> json" where
  "git_script repository =
     JObj [(''id'', JStr ''http-git''),
           (''output'', JStr (newline @ ''  '' @ repository @ newline
                              @ ''    Git repository found!'' @ newline)),
           (''http-git'', JList [JObj [(''repository'', JStr repository),
                                      (''files-found'', JList [JStr ''.git/index''])]])]"

text \<open>Lines 110 to 125.\<close>

definition git_detector :: "string \<Rightarrow> dict \<Rightarrow> string \<Rightarrow> int \<Rightarrow> dict \<Rightarrow> int flow" where
  "git_detector address resp path port res =
     (if dict_get resp ''status_code'' JNull \<noteq> JInt 200 then Return (JObj [])
      else case dict_get resp ''body'' (JStr []) of
        JStr body \<Rightarrow>
          (if \<not> startswith body ''DIRC'' then Return (JObj [])
           else case append_script (dict_set res ''port'' (JInt port))
                       (git_script (git_repository address port path)) of
                  Inl e \<Rightarrow> Raise e
                | Inr res' \<Rightarrow> Return (JObj res'))
      | _ \<Rightarrow> Raise AttributeError)"

text \<open>Lines 138 to 154; \<open>versions\<close> is the sorted list and is not empty.\<close>

definition owa_script :: "string \<Rightarrow> string list \<Rightarrow> json" where
  "owa_script path versions =
     (let p = take (length path - 15) path;
          output = (if length versions > 1
                    then ''OWA: path '' @ p @ '', version '' @ join '' / '' versions
                         @ '' (multiple versions found!)''
                    else ''OWA: path '' @ p @ '', version '' @ hd versions)
      in JObj [(''id'', JStr ''http-app''),
               (''output'', JStr output),
               (''http-app'', JList [JObj [(''path'', JStr p),
                                          (''application'', JStr ''OWA''),
                                          (''version'', JStr (hd versions))]])])"

text \<open>Lines 127 to 155; \<open>finditer\<close> takes a text only.\<close>

definition owa_detector :: "env \<Rightarrow> dict \<Rightarrow> string \<Rightarrow> int \<Rightarrow> dict \<Rightarrow> int flow" where
  "owa_detector env resp path port res =
     (if dict_get resp ''status_code'' JNull \<noteq> JInt 200 then Return (JObj [])
      else case dict_get resp ''body'' (JStr []) of
        JStr body \<Rightarrow>
          (if owa_finditer 0 body = [] then Return (JObj [])
           else case append_script (dict_set res ''port'' (JInt port))
                       (owa_script path (owa_versions env body)) of
                  Inl e \<Rightarrow> Raise e
                | Inr res' \<Rightarrow> Return (JObj res'))
      | _ \<Rightarrow> Raise TypeError)"

text \<open>Lines 96 to 160: the port, unless a detector returns. \<open>url.get\<close> needs a
  dictionary and \<open>endswith\<close> a text.\<close>

definition url_stage :: "env \<Rightarrow> string \<Rightarrow> dict \<Rightarrow> dict \<Rightarrow> json \<Rightarrow> dict \<Rightarrow> int flow" where
  "url_stage env address resp req url res =
     (if truthy url then
        (case url of
           JObj u \<Rightarrow>
             (case url_port u of
                Inl e \<Rightarrow> Raise e
              | Inr port \<Rightarrow>
                  (case dict_get u ''path'' JNull of
                     JStr path \<Rightarrow>
                       if endswith path ''/.git/index''
                       then git_detector address resp path port res
                       else if endswith path ''/owa/auth/logon.aspx''
                       then owa_detector env resp path port res
                       else Next port
                   | _ \<Rightarrow> Raise AttributeError))
         | _ \<Rightarrow> Raise AttributeError)
      else if truthy (dict_get req ''tls_handshake'' JNull) \<or> truthy (dict_get req ''tls_log'' JNull)
      then Next 443
      else Next 80)"

subsection \<open>The title of the page, line 33\<close>

text \<open>
  \<open>_EXPR_TITLE = re.compile('<title[^>]*>([^<]*)</title>', re.I)\<close>. After the opening
  letters the tag runs to the first closing angle bracket; the group is the longest run
  without an opening angle bracket, and the closing tag must follow it. Letters are
  compared without case; among the characters of the model only the ASCII capitals fold
  onto the letters of the pattern.
\<close>

definition lower :: "char \<Rightarrow> char" where
  "lower c = (let n = (of_char c :: nat) in if 65 \<le> n \<and> n \<le> 90 then char_of (n + 32) else c)"

definition istartswith :: "string \<Rightarrow> string \<Rightarrow> bool" where
  "istartswith s p = (map lower (take (length p) s) = p)"

definition title_match_at :: "string \<Rightarrow> string option" where
  "title_match_at s =
     (if istartswith s ''<title'' then
        (case dropWhile (\<lambda>c. c \<noteq> CHR ''>'') (drop 6 s) of
           [] \<Rightarrow> None
         | gt # b \<Rightarrow>
             (if istartswith (dropWhile (\<lambda>c. c \<noteq> CHR ''<'') b) ''</title>''
              then Some (takeWhile (\<lambda>c. c \<noteq> CHR ''<'') b)
              else None))
      else None)"

text \<open>\<open>search\<close>: the match at the leftmost place that has one.\<close>

fun title_search :: "string \<Rightarrow> string option" where
  "title_search [] = None"
| "title_search (c # cs) =
     (case title_match_at (c # cs) of
        Some t \<Rightarrow> Some t
      | None \<Rightarrow> title_search cs)"

subsection \<open>The generic path, lines 161 to 216\<close>

text \<open>\<open>resp['protocol']['name']\<close>.\<close>

definition protocol_name :: "dict \<Rightarrow> pyerr + json" where
  "protocol_name resp =
     (case py_getitem (JObj resp) ''protocol'' of
        Inl e \<Rightarrow> Inl e
      | Inr p \<Rightarrow> py_getitem p ''name'')"

text \<open>Lines 164 and 165.\<close>

definition status_banner :: "env \<Rightarrow> dict \<Rightarrow> pyerr + string" where
  "status_banner env resp =
     (case protocol_name resp of
        Inl e \<Rightarrow> Inl e
      | Inr name \<Rightarrow>
          (case nmap_decode_data env name of
             Inl e \<Rightarrow> Inl e
           | Inr a \<Rightarrow>
               (case py_getitem (JObj resp) ''status_line'' of
                  Inl e \<Rightarrow> Inl e
                | Inr sl \<Rightarrow>
                    (case nmap_decode_data env sl of
                       Inl e \<Rightarrow> Inl e
                     | Inr b \<Rightarrow> Inr (a @ '' '' @ b @ crlf)))))"

text \<open>Lines 173 and 174, \<open>headers[unk['key']] = unk['value']\<close> for each entry of the popped
  bucket: the entries before a failing one stay stored.\<close>

fun flatten_unknown :: "dict \<Rightarrow> json list \<Rightarrow> pyerr option \<times> dict" where
  "flatten_unknown headers [] = (None, headers)"
| "flatten_unknown headers (unk # unks) =
     (case py_getitem unk ''value'' of
        Inl e \<Rightarrow> (Some e, headers)
      | Inr v \<Rightarrow>
          (case py_getitem unk ''key'' of
             Inl e \<Rightarrow> (Some e, headers)
           | Inr (JStr k) \<Rightarrow> flatten_unknown (dict_set headers k v) unks
           | Inr k \<Rightarrow> (Some (if hashable k then NonStringKey else TypeError), headers)))"

text \<open>Lines 172 to 174 and the call of \<open>viewitems\<close>, which needs a dictionary. The first
  component is the headers dictionary after the block when the block has changed it.\<close>

definition flatten_headers :: "json \<Rightarrow> dict option \<times> (pyerr + dict)" where
  "flatten_headers headers =
     (case py_contains ''unknown'' headers of
        Inl e \<Rightarrow> (None, Inl e)
      | Inr False \<Rightarrow>
          (case headers of
             JObj h \<Rightarrow> (None, Inr h)
           | _ \<Rightarrow> (None, Inl AttributeError))
      | Inr True \<Rightarrow>
          (case headers of
             JObj h \<Rightarrow>
               (let h' = dict_del h ''unknown'' in
                case py_iter (dict_get h ''unknown'' JNull) of
                  Inl e \<Rightarrow> (Some h', Inl e)
                | Inr unks \<Rightarrow>
                    (case flatten_unknown h' unks of
                       (Some e, h'') \<Rightarrow> (Some h'', Inl e)
                     | (None, h'') \<Rightarrow> (Some h'', Inr h'')))
           | JList xs \<Rightarrow> (None, Inl TypeError)
           | _ \<Rightarrow> (None, Inl AttributeError)))"

definition dashes :: "string \<Rightarrow> string" where
  "dashes hdr = map (\<lambda>c. if c = CHR ''_'' then CHR ''-'' else c) hdr"

text \<open>Lines 175 to 179: the pairs of a header name and one of its values, in order.\<close>

fun header_entries :: "dict \<Rightarrow> pyerr + (string \<times> json) list" where
  "header_entries [] = Inr []"
| "header_entries ((hdr, vals) # rest) =
     (case py_iter vals of
        Inl e \<Rightarrow> Inl e
      | Inr vs \<Rightarrow>
          (case header_entries rest of
             Inl e \<Rightarrow> Inl e
           | Inr es \<Rightarrow> Inr (map (\<lambda>v. (dashes hdr, v)) vs @ es)))"

text \<open>\<open>server[0]\<close>.\<close>

fun py_first :: "json \<Rightarrow> pyerr + json" where
  "py_first (JList (x # xs)) = Inr x"
| "py_first (JList []) = Inl IndexError"
| "py_first (JStr (c # cs)) = Inr (JStr [c])"
| "py_first (JStr []) = Inl IndexError"
| "py_first (JObj d) = Inl KeyError"
| "py_first _ = Inl TypeError"

text \<open>Lines 169 to 188: the script \<open>http-headers\<close> from the status line, the flattened
  headers and the request.\<close>

definition status_text :: "env \<Rightarrow> json \<Rightarrow> json \<Rightarrow> string" where
  "status_text env name status_line = py_str env name @ '' '' @ py_str env status_line"

definition http_hdrs :: "string \<Rightarrow> (string \<times> json) list \<Rightarrow> json list" where
  "http_hdrs line entries =
     JObj [(''name'', JStr ''_status''), (''value'', JStr line)]
     # map (\<lambda>nv. JObj [(''name'', JStr (fst nv)), (''value'', snd nv)]) entries"

definition headers_output :: "env \<Rightarrow> string \<Rightarrow> (string \<times> json) list \<Rightarrow> json \<Rightarrow> string list" where
  "headers_output env line entries method =
     line # map (\<lambda>nv. fst nv @ '': '' @ py_str env (snd nv)) entries
     @ (if truthy method then [[], ''(Request type: '' @ py_str env method @ '')''] else [])"

definition headers_script :: "env \<Rightarrow> string \<Rightarrow> (string \<times> json) list \<Rightarrow> json \<Rightarrow> json" where
  "headers_script env line entries method =
     JObj [(''id'', JStr ''http-headers''),
           (''output'', JStr (join newline (headers_output env line entries method))),
           (''http-headers'', JList (http_hdrs line entries))]"

text \<open>Lines 189 to 196: the record and the banner.\<close>

definition server_header :: "env \<Rightarrow> dict \<Rightarrow> dict \<Rightarrow> string \<Rightarrow> pyerr + (dict \<times> string)" where
  "server_header env headers res banner =
     (let server = dict_get headers ''server'' JNull in
      if truthy server then
        (case py_first server of
           Inl e \<Rightarrow> Inl e
         | Inr first \<Rightarrow>
             (case append_script res
                     (JObj [(''id'', JStr ''http-server-header''), (''output'', first),
                            (''http-server-header'', server)]) of
                Inl e \<Rightarrow> Inl e
              | Inr res' \<Rightarrow>
                  (case nmap_decode_data env first of
                     Inl e \<Rightarrow> Inl e
                   | Inr b \<Rightarrow> Inr (res', banner @ ''Server: '' @ b @ crlf @ crlf))))
      else Inr (res, banner))"

text \<open>Lines 167 to 188, run when the response has headers: the record with the script
  appended, and the flattened headers for line 189. The first component is the headers
  dictionary after the block when the block has changed it in place.\<close>

definition http_headers_block ::
  "env \<Rightarrow> dict \<Rightarrow> dict \<Rightarrow> dict \<Rightarrow> dict option \<times> (pyerr + (dict \<times> dict))" where
  "http_headers_block env resp req res =
     (case protocol_name resp of
        Inl e \<Rightarrow> (None, Inl e)
      | Inr name \<Rightarrow>
          (case flatten_headers (dict_get resp ''headers'' JNull) of
             (changed, Inl e) \<Rightarrow> (changed, Inl e)
           | (changed, Inr h) \<Rightarrow>
               (changed,
                case header_entries h of
                  Inl e \<Rightarrow> Inl e
                | Inr entries \<Rightarrow>
                    (case append_script res
                            (headers_script env
                               (status_text env name (dict_get resp ''status_line'' JNull))
                               entries (dict_get req ''method'' JNull)) of
                       Inl e \<Rightarrow> Inl e
                     | Inr res' \<Rightarrow> Inr (res', h)))))"

text \<open>Lines 166 to 196.\<close>

definition headers_block ::
  "env \<Rightarrow> dict \<Rightarrow> dict \<Rightarrow> dict \<Rightarrow> string \<Rightarrow> dict option \<times> (pyerr + (dict \<times> string))" where
  "headers_block env resp req res banner =
     (if truthy (dict_get resp ''headers'' JNull) then
        (case http_headers_block env resp req res of
           (changed, Inl e) \<Rightarrow> (changed, Inl e)
         | (changed, Inr (res', h)) \<Rightarrow> (changed, server_header env h res' banner))
      else (None, Inr (res, banner)))"

text \<open>Lines 200 to 215.\<close>

definition body_block :: "env \<Rightarrow> dict \<Rightarrow> json \<Rightarrow> dict \<Rightarrow> pyerr + dict" where
  "body_block env resp url res =
     (let b = dict_get resp ''body'' JNull in
      if truthy b then
        (case b of
           JStr body \<Rightarrow>
             (case append_script res
                     (JObj [(''id'', JStr ''http-content''),
                            (''output'', JStr (nmap_encode_data env (str_encode env body)))]) of
                Inl e \<Rightarrow> Inl e
              | Inr res1 \<Rightarrow>
                  (case (case title_search body of
                           None \<Rightarrow> Inr res1
                         | Some title \<Rightarrow>
                             append_script res1
                               (JObj [(''id'', JStr ''http-title''), (''output'', JStr title),
                                      (''http-title'', JObj [(''title'', JStr title)])])) of
                     Inl e \<Rightarrow> Inl e
                   | Inr res2 \<Rightarrow>
                       (case create_http_ls env body url of
                          None \<Rightarrow> Inr res2
                        | Some script \<Rightarrow> append_script res2 script)))
         | _ \<Rightarrow> Inl AttributeError)
      else Inr res)"

text \<open>Lines 161 to 216, the record holding the port already.\<close>

definition generic_stage ::
  "env \<Rightarrow> dict \<Rightarrow> dict \<Rightarrow> json \<Rightarrow> dict \<Rightarrow> dict option \<times> (pyerr + json)" where
  "generic_stage env resp req url res =
     (case status_banner env resp of
        Inl e \<Rightarrow> (None, Inl e)
      | Inr banner \<Rightarrow>
          (case headers_block env resp req res banner of
             (changed, Inl e) \<Rightarrow> (changed, Inl e)
           | (changed, Inr (res1, banner1)) \<Rightarrow>
               (changed,
                let info = match_nmap_svc_fp env banner1;
                    res2 = (if info \<noteq> [] then dict_update res1 info else res1)
                in case body_block env resp url res2 of
                     Inl e \<Rightarrow> Inl e
                   | Inr res3 \<Rightarrow> Inr (JObj res3))))"

subsection \<open>The function\<close>

record 'a result =
  outcome :: "pyerr + json"
  data_after :: json
  host_after :: "'a hostrec_scheme"
  warnings :: "warning list"

text \<open>The argument after the headers dictionary of its response has been changed in
  place.\<close>

definition with_headers :: "json \<Rightarrow> dict \<Rightarrow> dict option \<Rightarrow> json" where
  "with_headers data resp changed =
     (case (data, changed) of
        (JObj d, Some h) \<Rightarrow> JObj (dict_set d ''response'' (JObj (dict_set resp ''headers'' (JObj h))))
      | _ \<Rightarrow> data)"

definition zgrap_parser_http :: "env \<Rightarrow> json \<Rightarrow> 'a hostrec_scheme \<Rightarrow> 'a result" where
  "zgrap_parser_http env data hostrec =
     (if \<not> truthy data
      then \<lparr>outcome = Inr (JObj []), data_after = data, host_after = hostrec, warnings = []\<rparr>
      else case reconcile data of
        (Some e, data1) \<Rightarrow>
          \<lparr>outcome = Inl e, data_after = data1, host_after = hostrec, warnings = []\<rparr>
      | (None, data1) \<Rightarrow>
          (case required_fields data1 of
             (w, Raise e) \<Rightarrow>
               \<lparr>outcome = Inl e, data_after = data1, host_after = hostrec, warnings = []\<rparr>
           | (w, Return r) \<Rightarrow>
               \<lparr>outcome = Inr r, data_after = data1, host_after = hostrec,
                warnings = (case w of None \<Rightarrow> [] | Some m \<Rightarrow> [m])\<rparr>
           | (w, Next (resp, req, url)) \<Rightarrow>
               (case tls_stage env req hostrec of
                  Inl e \<Rightarrow>
                    \<lparr>outcome = Inl e, data_after = data1, host_after = hostrec, warnings = []\<rparr>
                | Inr (res, hostrec1) \<Rightarrow>
                    (case url_stage env (addr hostrec1) resp req url res of
                       Raise e \<Rightarrow>
                         \<lparr>outcome = Inl e, data_after = data1, host_after = hostrec1,
                          warnings = []\<rparr>
                     | Return r \<Rightarrow>
                         \<lparr>outcome = Inr r, data_after = data1, host_after = hostrec1,
                          warnings = []\<rparr>
                     | Next port \<Rightarrow>
                         (case generic_stage env resp req url (dict_set res ''port'' (JInt port)) of
                            (changed, out) \<Rightarrow>
                              \<lparr>outcome = out, data_after = with_headers data1 resp changed,
                               host_after = hostrec1, warnings = []\<rparr>)))))"

subsection \<open>Reading a returned record\<close>

definition field :: "string \<Rightarrow> json \<Rightarrow> json option" where
  "field k v = (case v of JObj d \<Rightarrow> map_of d k | _ \<Rightarrow> None)"

definition scripts_of :: "json \<Rightarrow> json list" where
  "scripts_of v = (case field ''scripts'' v of Some (JList xs) \<Rightarrow> xs | _ \<Rightarrow> [])"

definition scripts_ok :: "dict \<Rightarrow> bool" where
  "scripts_ok res = (case map_of res ''scripts'' of None \<Rightarrow> True | Some (JList xs) \<Rightarrow> True | Some _ \<Rightarrow> False)"

definition has_port :: "dict \<Rightarrow> bool" where
  "has_port d = (map_of d ''port'' \<noteq> None)"

subsection \<open>The JSON types of the scanner's fields\<close>

text \<open>
  The theorems below that follow one path of the function say which fields their input
  has. Where a field is present, they take it with the JSON type the scanner gives it:
  the response and the request are objects, TLS data is an object (or \<open>null\<close>) in which
  the certificate is a text under \<open>server_certificates.certificate.raw\<close>, the host of
  the URL is a text. Every field under these may be absent.
\<close>

definition has_required :: "dict \<Rightarrow> dict \<Rightarrow> dict \<Rightarrow> bool" where
  "has_required d resp req =
     (map_of d ''response'' = Some (JObj resp) \<and> map_of resp ''request'' = Some (JObj req)
      \<and> ''status_code'' \<in> fst ` set resp \<and> ''status_line'' \<in> fst ` set resp)"

definition absent_or_object :: "json option \<Rightarrow> (dict \<Rightarrow> bool) \<Rightarrow> bool" where
  "absent_or_object v P = (case v of None \<Rightarrow> True | Some (JObj d) \<Rightarrow> P d | Some _ \<Rightarrow> False)"

definition absent_or_text :: "json option \<Rightarrow> bool" where
  "absent_or_text v = (case v of None \<Rightarrow> True | Some (JStr s) \<Rightarrow> True | Some _ \<Rightarrow> False)"

definition cert_typed :: "json \<Rightarrow> bool" where
  "cert_typed tls =
     (case tls of
        JNull \<Rightarrow> True
      | JObj t \<Rightarrow>
          absent_or_object (map_of t ''server_certificates'')
            (\<lambda>sc. absent_or_object (map_of sc ''certificate'')
               (\<lambda>c. absent_or_text (map_of c ''raw'')))
      | _ \<Rightarrow> False)"

definition tls_typed :: "dict \<Rightarrow> bool" where
  "tls_typed req =
     (case map_of req ''tls_handshake'' of
        Some v \<Rightarrow> cert_typed v
      | None \<Rightarrow>
          absent_or_object (map_of req ''tls_log'')
            (\<lambda>l. case map_of l ''handshake_log'' of None \<Rightarrow> True | Some v \<Rightarrow> cert_typed v))"

definition host_typed :: "dict \<Rightarrow> bool" where
  "host_typed url = absent_or_text (map_of url ''host'')"

subsection \<open>Collaborators and inputs for the examples\<close>

text \<open>Collaborators that answer as the real ones do on one certificate: the certificate
  decodes to one record, which yields one host name; nothing matches the banner, no
  listing is found, and the codecs leave ASCII text as it is.\<close>

definition example_cert :: json where
  "example_cert = JObj [(''subject'', JObj [(''commonName'', JStr ''www.example.com'')])]"

definition example_hostname :: json where
  "example_hostname =
     JObj [(''type'', JStr ''cert-subject-cn''), (''name'', JStr ''www.example.com'')]"

definition example_env :: env where
  "example_env =
     \<lparr>create_ssl_cert = (\<lambda>b. (''Subject: commonName=www.example.com'', [example_cert])),
      cert_hostnames = (\<lambda>cert hs. [example_hostname]),
      create_http_ls = (\<lambda>body url. None),
      nmap_decode_data = (\<lambda>v. case v of JStr s \<Rightarrow> Inr s | _ \<Rightarrow> Inl TypeError),
      nmap_encode_data = (\<lambda>b. b),
      match_nmap_svc_fp = (\<lambda>banner. []),
      str_encode = (\<lambda>s. s),
      str_other = (\<lambda>v. ''None''),
      set_order = remdups\<rparr>"

definition example_host :: hostrec where
  "example_host = \<lparr>addr = ''192.0.2.1'', hostnames = None\<rparr>"

text \<open>A response with the required fields and the protocol, a given status code, request
  and further fields.\<close>

definition example_response :: "int \<Rightarrow> dict \<Rightarrow> dict \<Rightarrow> dict" where
  "example_response status req extra =
     [(''request'', JObj req), (''status_code'', JInt status),
      (''status_line'', JStr ''200 OK''),
      (''protocol'', JObj [(''name'', JStr ''HTTP/1.1'')])] @ extra"

definition example_data :: "int \<Rightarrow> dict \<Rightarrow> dict \<Rightarrow> json" where
  "example_data status req extra = JObj [(''response'', JObj (example_response status req extra))]"

text \<open>A URL that has a host and no path.\<close>

definition url_without_path :: json where
  "url_without_path = example_data 200 [(''url'', JObj [(''host'', JStr ''example.com'')])] []"

text \<open>A response that has the three required fields and no protocol.\<close>

definition response_without_protocol :: json where
  "response_without_protocol =
     JObj [(''response'', JObj [(''request'', JObj []), (''status_code'', JInt 200),
                               (''status_line'', JStr ''200 OK'')])]"

text \<open>A request made over TLS, the certificate in the handshake data.\<close>

definition tls_request :: dict where
  "tls_request =
     [(''tls_handshake'',
       JObj [(''server_certificates'',
              JObj [(''certificate'', JObj [(''raw'', JStr ''MIIBszCCAVmgAwIBAgIU'')])])])]"



text \<open>Requests for the path of a Git index and for the logon page of Outlook Web Access.\<close>

definition git_request :: dict where
  "git_request =
     [(''url'', JObj [(''host'', JStr ''example.com:8080''), (''path'', JStr ''/x/.git/index'')])]"


text \<open>A Git index served at \<open>/x/.git/index\<close>, asked for without TLS.\<close>

definition git_example :: json where
  "git_example = example_data 200 git_request [(''body'', JStr ''DIRC'')]"





subsection \<open>The port as the specification infers it\<close>

text \<open>
  Written from the words of claim C3. The URL is present when the request holds one that
  is not empty. A host with a colon gives the port that \<open>int()\<close> reads after the first
  colon, when it reads one; otherwise the scheme decides. Without a URL, the port is 443
  when the request has a \<open>tls_handshake\<close> or \<open>tls_log\<close> entry that is not empty, else 80.
\<close>

definition url_of :: "dict \<Rightarrow> dict option" where
  "url_of req =
     (case dict_get req ''url'' JNull of
        JObj url \<Rightarrow> if url = [] then None else Some url
      | _ \<Rightarrow> None)"






subsection \<open>Headers of the scanner's types\<close>

text \<open>An entry of the bucket \<open>unknown\<close>: an object with a text under \<open>key\<close> and a value
  under \<open>value\<close>.\<close>

definition unknown_pair :: "json \<Rightarrow> (string \<times> json) option" where
  "unknown_pair unk =
     (case py_getitem unk ''key'' of
        Inr (JStr k) \<Rightarrow> (case py_getitem unk ''value'' of Inr v \<Rightarrow> Some (k, v) | Inl e \<Rightarrow> None)
      | _ \<Rightarrow> None)"

text \<open>The entries of the bucket of a headers object, in order: none when it has no
  bucket. \<open>None\<close> when the bucket is not a list of such entries.\<close>

definition unknown_pairs :: "dict \<Rightarrow> (string \<times> json) list option" where
  "unknown_pairs h =
     (case map_of h ''unknown'' of
        None \<Rightarrow> Some []
      | Some (JList unks) \<Rightarrow>
          if list_all (\<lambda>u. unknown_pair u \<noteq> None) unks
          then Some (map (\<lambda>u. the (unknown_pair u)) unks) else None
      | Some _ \<Rightarrow> None)"

text \<open>The headers after lines 172 to 174: the bucket is removed, then each of its entries
  is stored under its key.\<close>

definition flat_headers :: "dict \<Rightarrow> (string \<times> json) list \<Rightarrow> dict" where
  "flat_headers h us = dict_update (dict_del h ''unknown'') us"



text \<open>The headers of the specification's example, and a request with a method.\<close>

definition example_headers :: dict where
  "example_headers =
     [(''content_type'', JList [JStr ''text/html'']),
      (''unknown'', JList [JObj [(''key'', JStr ''x-custom''), (''value'', JStr ''1'')]])]"

definition get_request :: dict where
  "get_request = [(''method'', JStr ''GET'')]"

text \<open>The request has no URL, or a URL whose host is a text when present and whose path is
  a text that neither detector takes: the generic path is entered.\<close>

definition no_detector :: "dict \<Rightarrow> bool" where
  "no_detector req =
     (case url_of req of
        None \<Rightarrow> \<not> truthy (dict_get req ''url'' JNull)
      | Some url \<Rightarrow>
          host_typed url \<and>
          (case map_of url ''path'' of
             Some (JStr path) \<Rightarrow>
               \<not> endswith path ''/.git/index'' \<and> \<not> endswith path ''/owa/auth/logon.aspx''
           | _ \<Rightarrow> False))"

text \<open>The example with headers as the second version of the scanner writes it, under
  \<open>result\<close>, and the same input after a call.\<close>

definition headers_response :: dict where
  "headers_response = example_response 200 get_request [(''headers'', JObj example_headers)]"

definition wrapped_example :: json where
  "wrapped_example =
     JObj [(''status'', JStr ''success''), (''result'', JObj [(''response'', JObj headers_response)])]"

definition reconciled_example :: json where
  "reconciled_example =
     JObj [(''status'', JStr ''success''),
           (''response'',
            JObj (example_response 200 get_request
                    [(''headers'', JObj [(''content_type'', JList [JStr ''text/html'']),
                                         (''x-custom'', JStr ''1'')])]))]"

section \<open>Properties\<close>

subsection \<open>Dictionaries\<close>

lemma map_of_dict_set:
  "map_of (dict_set d k v) k' = (if k' = k then Some v else map_of d k')"
  by (induction d) auto

lemma map_of_dict_del:
  "map_of (dict_del d k) k' = (if k' = k then None else map_of d k')"
  unfolding dict_del_def by (induction d) auto

lemma dict_update_keeps:
  "map_of d k \<noteq> None \<Longrightarrow> map_of (dict_update d e) k \<noteq> None"
  unfolding dict_update_def
  by (induction e arbitrary: d) (auto simp: map_of_dict_set)

subsection \<open>The paths through the function\<close>

text \<open>Every call takes one of eight paths; each case gives what the stages returned on
  the path and the result of the call.\<close>

lemma zgrap_parser_http_cases:
  fixes hostrec :: "'a hostrec_scheme"
  obtains
    (Empty) "\<not> truthy data"
      "zgrap_parser_http env data hostrec =
         \<lparr>outcome = Inr (JObj []), data_after = data, host_after = hostrec, warnings = []\<rparr>"
  | (Merge_raises) e data1 where "truthy data" "reconcile data = (Some e, data1)"
      "zgrap_parser_http env data hostrec =
         \<lparr>outcome = Inl e, data_after = data1, host_after = hostrec, warnings = []\<rparr>"
  | (Fields_raise) data1 w e where "truthy data" "reconcile data = (None, data1)"
      "required_fields data1 = (w, Raise e)"
      "zgrap_parser_http env data hostrec =
         \<lparr>outcome = Inl e, data_after = data1, host_after = hostrec, warnings = []\<rparr>"
  | (Fields_return) data1 w r where "truthy data" "reconcile data = (None, data1)"
      "required_fields data1 = (w, Return r)"
      "zgrap_parser_http env data hostrec =
         \<lparr>outcome = Inr r, data_after = data1, host_after = hostrec,
          warnings = (case w of None \<Rightarrow> [] | Some m \<Rightarrow> [m])\<rparr>"
  | (Tls_raises) data1 w resp req url e where "truthy data" "reconcile data = (None, data1)"
      "required_fields data1 = (w, Next (resp, req, url))"
      "tls_stage env req hostrec = Inl e"
      "zgrap_parser_http env data hostrec =
         \<lparr>outcome = Inl e, data_after = data1, host_after = hostrec, warnings = []\<rparr>"
  | (Url_raises) data1 w resp req url res hostrec1 e where "truthy data"
      "reconcile data = (None, data1)"
      "required_fields data1 = (w, Next (resp, req, url))"
      "tls_stage env req hostrec = Inr (res, hostrec1)"
      "url_stage env (addr hostrec1) resp req url res = Raise e"
      "zgrap_parser_http env data hostrec =
         \<lparr>outcome = Inl e, data_after = data1, host_after = hostrec1, warnings = []\<rparr>"
  | (Url_returns) data1 w resp req url res hostrec1 r where "truthy data"
      "reconcile data = (None, data1)"
      "required_fields data1 = (w, Next (resp, req, url))"
      "tls_stage env req hostrec = Inr (res, hostrec1)"
      "url_stage env (addr hostrec1) resp req url res = Return r"
      "zgrap_parser_http env data hostrec =
         \<lparr>outcome = Inr r, data_after = data1, host_after = hostrec1, warnings = []\<rparr>"
  | (Generic) data1 w resp req url res hostrec1 port changed out where "truthy data"
      "reconcile data = (None, data1)"
      "required_fields data1 = (w, Next (resp, req, url))"
      "tls_stage env req hostrec = Inr (res, hostrec1)"
      "url_stage env (addr hostrec1) resp req url res = Next port"
      "generic_stage env resp req url (dict_set res ''port'' (JInt port)) = (changed, out)"
      "zgrap_parser_http env data hostrec =
         \<lparr>outcome = out, data_after = with_headers data1 resp changed,
          host_after = hostrec1, warnings = []\<rparr>"
proof (cases "truthy data")
  case False
  then show ?thesis using Empty by (simp add: zgrap_parser_http_def)
next
  case t: True
  obtain err data1 where rc: "reconcile data = (err, data1)" by force
  show ?thesis
  proof (cases err)
    case (Some e)
    with t rc show ?thesis using Merge_raises by (simp add: zgrap_parser_http_def)
  next
    case None
    obtain w f where rf: "required_fields data1 = (w, f)" by force
    show ?thesis
    proof (cases f)
      case (Raise e)
      with t rc rf None show ?thesis using Fields_raise by (simp add: zgrap_parser_http_def)
    next
      case (Return r)
      with t rc rf None show ?thesis using Fields_return by (simp add: zgrap_parser_http_def)
    next
      case (Next x)
      obtain resp req url where x: "x = (resp, req, url)" by (cases x) auto
      show ?thesis
      proof (cases "tls_stage env req hostrec")
        case (Inl e)
        with t rc rf None Next x show ?thesis using Tls_raises
          by (simp add: zgrap_parser_http_def)
      next
        case (Inr p)
        obtain res hostrec1 where p: "p = (res, hostrec1)" by (cases p) auto
        show ?thesis
        proof (cases "url_stage env (addr hostrec1) resp req url res")
          case (Raise e)
          with t rc rf None Next x Inr p show ?thesis using Url_raises
            by (simp add: zgrap_parser_http_def)
        next
          case (Return r)
          with t rc rf None Next x Inr p show ?thesis using Url_returns
            by (simp add: zgrap_parser_http_def)
        next
          case n: (Next port)
          obtain changed out where
            g: "generic_stage env resp req url (dict_set res ''port'' (JInt port)) = (changed, out)"
            by force
          with t rc rf None Next x Inr p n show ?thesis using Generic
            by (simp add: zgrap_parser_http_def)
        qed
      qed
    qed
  qed
qed


lemma run_url_raises:
  "truthy data \<Longrightarrow> reconcile data = (None, data1) \<Longrightarrow>
   required_fields data1 = (w, Next (resp, req, url)) \<Longrightarrow>
   tls_stage env req hostrec = Inr (res, hostrec1) \<Longrightarrow>
   url_stage env (addr hostrec1) resp req url res = Raise e \<Longrightarrow>
   zgrap_parser_http env data hostrec =
     \<lparr>outcome = Inl e, data_after = data1, host_after = hostrec1, warnings = []\<rparr>"
  by (simp add: zgrap_parser_http_def)

lemma run_url_returns:
  "truthy data \<Longrightarrow> reconcile data = (None, data1) \<Longrightarrow>
   required_fields data1 = (w, Next (resp, req, url)) \<Longrightarrow>
   tls_stage env req hostrec = Inr (res, hostrec1) \<Longrightarrow>
   url_stage env (addr hostrec1) resp req url res = Return r \<Longrightarrow>
   zgrap_parser_http env data hostrec =
     \<lparr>outcome = Inr r, data_after = data1, host_after = hostrec1, warnings = []\<rparr>"
  by (simp add: zgrap_parser_http_def)

lemma run_generic:
  "truthy data \<Longrightarrow> reconcile data = (None, data1) \<Longrightarrow>
   required_fields data1 = (w, Next (resp, req, url)) \<Longrightarrow>
   tls_stage env req hostrec = Inr (res, hostrec1) \<Longrightarrow>
   url_stage env (addr hostrec1) resp req url res = Next port \<Longrightarrow>
   generic_stage env resp req url (dict_set res ''port'' (JInt port)) = (changed, out) \<Longrightarrow>
   zgrap_parser_http env data hostrec =
     \<lparr>outcome = out, data_after = with_headers data1 resp changed,
      host_after = hostrec1, warnings = []\<rparr>"
  by (simp add: zgrap_parser_http_def)

subsection \<open>The port stays in the record\<close>

lemma has_port_set: "has_port (dict_set d ''port'' v)"
  by (simp add: has_port_def map_of_dict_set)

lemma append_script_has_port:
  "append_script res s = Inr res' \<Longrightarrow> has_port res \<Longrightarrow> has_port res'"
  by (auto simp: append_script_def has_port_def map_of_dict_set
           split: option.splits json.splits)

lemma git_detector_port:
  "git_detector a resp path port res = Return r \<Longrightarrow>
   r = JObj [] \<or> (\<exists>d. r = JObj d \<and> has_port d)"
  by (auto simp: git_detector_def has_port_set split: if_splits json.splits sum.splits
           dest!: append_script_has_port)

lemma owa_detector_port:
  "owa_detector env resp path port res = Return r \<Longrightarrow>
   r = JObj [] \<or> (\<exists>d. r = JObj d \<and> has_port d)"
  by (auto simp: owa_detector_def has_port_set split: if_splits json.splits sum.splits
           dest!: append_script_has_port)

lemma url_stage_port:
  "url_stage env a resp req url res = Return r \<Longrightarrow>
   r = JObj [] \<or> (\<exists>d. r = JObj d \<and> has_port d)"
  by (auto simp: url_stage_def split: if_splits json.splits sum.splits
           dest: git_detector_port owa_detector_port)

lemma server_header_port:
  "server_header env h res b = Inr (res', b') \<Longrightarrow> has_port res \<Longrightarrow> has_port res'"
  by (auto simp: server_header_def Let_def split: if_splits sum.splits
           dest: append_script_has_port)

lemma http_headers_block_port:
  "http_headers_block env resp req res = (c, Inr (res', h)) \<Longrightarrow> has_port res \<Longrightarrow> has_port res'"
  by (auto simp: http_headers_block_def split: sum.splits prod.splits
           dest: append_script_has_port)

lemma headers_block_port:
  "headers_block env resp req res b = (c, Inr (res', b')) \<Longrightarrow> has_port res \<Longrightarrow> has_port res'"
  by (auto simp: headers_block_def split: if_splits sum.splits prod.splits
           dest: http_headers_block_port server_header_port)

lemma body_block_port:
  "body_block env resp url res = Inr res' \<Longrightarrow> has_port res \<Longrightarrow> has_port res'"
  by (auto simp: body_block_def Let_def split: if_splits sum.splits json.splits option.splits
           dest: append_script_has_port)

lemma generic_stage_port:
  assumes "generic_stage env resp req url res = (c, Inr r)" and "has_port res"
  shows "\<exists>d. r = JObj d \<and> has_port d"
proof -
  from assms(1) obtain banner res1 banner1 res3 where
    hb: "headers_block env resp req res banner = (c, Inr (res1, banner1))" and
    bb: "body_block env resp url
           (if match_nmap_svc_fp env banner1 \<noteq> []
            then dict_update res1 (match_nmap_svc_fp env banner1) else res1) = Inr res3" and
    r: "r = JObj res3"
    by (auto simp: generic_stage_def Let_def split: sum.splits prod.splits)
  from hb assms(2) have "has_port res1" by (rule headers_block_port)
  then have "has_port (if match_nmap_svc_fp env banner1 \<noteq> []
            then dict_update res1 (match_nmap_svc_fp env banner1) else res1)"
    using dict_update_keeps [of res1 "''port''"] by (simp add: has_port_def del: not_None_eq)
  with bb have "has_port res3" by (rule body_block_port)
  with r show ?thesis by simp
qed

lemma required_fields_Return:
  "required_fields d = (w, Return r) \<Longrightarrow> r = JObj []"
  unfolding required_fields_def
  by (simp split: sum.splits bool.splits list.splits json.splits)

lemma with_headers_None [simp]: "with_headers data resp None = data"
  by (simp add: with_headers_def split: json.splits)

subsection \<open>The stages on fields of the scanner's types\<close>

lemma required_fields_typed:
  assumes "has_required d resp req"
  shows "required_fields (JObj d) = (None, Next (resp, req, dict_get req ''url'' JNull))"
proof -
  from assms have r: "map_of d ''response'' = Some (JObj resp)"
    and q: "map_of resp ''request'' = Some (JObj req)"
    and c: "''status_code'' \<in> fst ` set resp" and l: "''status_line'' \<in> fst ` set resp"
    by (simp_all add: has_required_def)
  from r have k: "''response'' \<in> fst ` set d"
    by (metis domI dom_map_of_conv_image_fst)
  from q have k': "''request'' \<in> fst ` set resp"
    by (metis domI dom_map_of_conv_image_fst)
  have m: "missing_fields (JObj resp) = Inr []"
    using c l k' by (auto simp: missing_fields_def needed_fields_def image_iff)
  show ?thesis
    using r q k m by (simp add: required_fields_def dict_get_def split: option.splits)
qed

lemma append_script_base:
  "map_of res ''scripts'' = None \<Longrightarrow>
   append_script res s = Inr (dict_set res ''scripts'' (JList [s]))"
  by (simp add: append_script_def)

lemma ssl_record_scripts: "map_of ssl_record ''scripts'' = None"
  by (simp add: ssl_record_def base_record_def map_of_dict_set)

text \<open>What the TLS stage can return: the base record, with the tunnel when TLS data was
  found, and with the script \<open>ssl-cert\<close> when the certificate gave records.\<close>

lemma tls_stage_results:
  assumes "tls_stage env req hostrec = Inr (res, hostrec1)"
  shows "(res = base_record \<and> find_tls req = Inr JNull \<and> hostrec1 = hostrec)
       \<or> (res = ssl_record \<and> hostrec1 = hostrec)
       \<or> (\<exists>out info. info \<noteq> [] \<and>
             res = dict_set ssl_record ''scripts'' (JList [ssl_cert_script out info]) \<and>
             hostrec1 = foldl (add_cert_hostnames env) hostrec info)"
proof -
  from assms obtain tls where t: "find_tls req = Inr tls"
    by (auto simp: tls_stage_def split: sum.splits)
  show ?thesis
  proof (cases "tls = JNull")
    case True
    with assms t show ?thesis by (simp add: tls_stage_def)
  next
    case False
    with assms t obtain c where c: "find_cert tls = Inr c"
      by (auto simp: tls_stage_def split: sum.splits)
    show ?thesis
    proof (cases c)
      case None
      with assms t False c show ?thesis by (simp add: tls_stage_def)
    next
      case (Some v)
      with assms t False c obtain cert where v: "v = JStr cert"
        by (auto simp: tls_stage_def split: json.splits)
      obtain out info where i: "create_ssl_cert env (str_encode env cert) = (out, info)"
        by force
      from assms t False c Some v i show ?thesis
        by (cases "info = []")
           (auto simp: tls_stage_def append_script_base [OF ssl_record_scripts])
    qed
  qed
qed

lemma absent_or_object_iff:
  "absent_or_object v P \<longleftrightarrow> v = None \<or> (\<exists>d. v = Some (JObj d) \<and> P d)"
  by (auto simp: absent_or_object_def split: option.splits json.splits)

lemma absent_or_text_iff:
  "absent_or_text v \<longleftrightarrow> v = None \<or> (\<exists>s. v = Some (JStr s))"
  by (auto simp: absent_or_text_def split: option.splits json.splits)

lemma cert_typed_iff:
  "cert_typed tls \<longleftrightarrow> tls = JNull \<or>
     (\<exists>t. tls = JObj t \<and>
        absent_or_object (map_of t ''server_certificates'')
          (\<lambda>sc. absent_or_object (map_of sc ''certificate'')
             (\<lambda>c. absent_or_text (map_of c ''raw''))))"
  by (cases tls) (simp_all add: cert_typed_def)

lemma find_cert_typed:
  "cert_typed tls \<Longrightarrow> tls \<noteq> JNull \<Longrightarrow>
   find_cert tls = Inr None \<or> (\<exists>raw. find_cert tls = Inr (Some (JStr raw)))"
  by (auto simp: cert_typed_iff absent_or_object_iff absent_or_text_iff find_cert_def)

lemma find_tls_typed:
  "tls_typed req \<Longrightarrow> \<exists>tls. find_tls req = Inr tls \<and> cert_typed tls"
  by (auto simp: tls_typed_def find_tls_def absent_or_object_iff cert_typed_iff
           split: option.splits)

lemma tls_stage_typed:
  assumes "tls_typed req"
  shows "\<exists>res hostrec1. tls_stage env req hostrec = Inr (res, hostrec1)"
proof -
  from find_tls_typed [OF assms] obtain tls where
    t: "find_tls req = Inr tls" and c: "cert_typed tls" by blast
  show ?thesis
  proof (cases "tls = JNull")
    case True
    with t show ?thesis by (simp add: tls_stage_def)
  next
    case False
    from find_cert_typed [OF c False] show ?thesis
    proof
      assume "find_cert tls = Inr None"
      with t False show ?thesis by (simp add: tls_stage_def)
    next
      assume "\<exists>raw. find_cert tls = Inr (Some (JStr raw))"
      then obtain raw where r: "find_cert tls = Inr (Some (JStr raw))" by blast
      obtain out info where i: "create_ssl_cert env (str_encode env raw) = (out, info)"
        by force
      from t False r i show ?thesis
        by (simp add: tls_stage_def append_script_base [OF ssl_record_scripts])
    qed
  qed
qed

lemma url_port_typed:
  "host_typed url \<Longrightarrow> \<exists>port. url_port url = Inr port"
  by (auto simp: host_typed_def absent_or_text_iff url_port_def dict_get_def Let_def
           split: option.splits)

subsection \<open>The host record after the TLS stage\<close>

lemma add_cert_hostnames_frame:
  "\<exists>new. add_cert_hostnames env h cert = h\<lparr>hostnames := Some (hostname_list h @ new)\<rparr>"
  unfolding add_cert_hostnames_def Let_def by (rule exI) (rule refl)

lemma foldl_add_cert_hostnames:
  "info \<noteq> [] \<Longrightarrow>
   \<exists>new. foldl (add_cert_hostnames env) h info = h\<lparr>hostnames := Some (hostname_list h @ new)\<rparr>"
proof (induction info arbitrary: h)
  case Nil
  then show ?case by simp
next
  case (Cons cert info)
  obtain n1 where a: "add_cert_hostnames env h cert = h\<lparr>hostnames := Some (hostname_list h @ n1)\<rparr>"
    using add_cert_hostnames_frame by blast
  show ?case
  proof (cases "info = []")
    case True
    with a show ?thesis by auto
  next
    case False
    from Cons.IH [OF False, of "add_cert_hostnames env h cert"] obtain n2 where
      "foldl (add_cert_hostnames env) (add_cert_hostnames env h cert) info =
         (add_cert_hostnames env h cert)
           \<lparr>hostnames := Some (hostname_list (add_cert_hostnames env h cert) @ n2)\<rparr>"
      by blast
    with a have "foldl (add_cert_hostnames env) h (cert # info) =
                   h\<lparr>hostnames := Some (hostname_list h @ (n1 @ n2))\<rparr>"
      by (simp add: hostname_list_def)
    then show ?thesis by blast
  qed
qed

lemma tls_stage_host:
  assumes "tls_stage env req hostrec = Inr (res, hostrec1)"
  shows "hostrec1 = hostrec \<or>
         (\<exists>new. hostrec1 = hostrec\<lparr>hostnames := Some (hostname_list hostrec @ new)\<rparr>)"
  using tls_stage_results [OF assms] foldl_add_cert_hostnames [of _ env hostrec]
  by blast

subsection \<open>The detectors\<close>

lemma scripts_ok_iff:
  "scripts_ok res \<longleftrightarrow> map_of res ''scripts'' = None \<or> (\<exists>xs. map_of res ''scripts'' = Some (JList xs))"
  by (auto simp: scripts_ok_def split: option.splits json.splits)

lemma scripts_of_JObj:
  "scripts_of (JObj res) = (case map_of res ''scripts'' of Some (JList xs) \<Rightarrow> xs | _ \<Rightarrow> [])"
  by (simp add: scripts_of_def field_def)

lemma append_script_ok:
  "scripts_ok res \<Longrightarrow>
   append_script res s = Inr (dict_set res ''scripts'' (JList (scripts_of (JObj res) @ [s])))"
  by (auto simp: scripts_ok_iff append_script_def scripts_of_JObj)

lemma scripts_ok_set_port [simp]: "scripts_ok (dict_set res ''port'' v) = scripts_ok res"
  by (simp add: scripts_ok_def map_of_dict_set)

lemma scripts_of_set_port [simp]:
  "scripts_of (JObj (dict_set res ''port'' v)) = scripts_of (JObj res)"
  by (simp add: scripts_of_JObj map_of_dict_set)

lemma scripts_of_set_scripts [simp]:
  "scripts_of (JObj (dict_set res ''scripts'' (JList xs))) = xs"
  by (simp add: scripts_of_JObj map_of_dict_set)

lemma tls_stage_scripts_ok:
  "tls_stage env req hostrec = Inr (res, hostrec1) \<Longrightarrow> scripts_ok res"
  by (auto dest!: tls_stage_results
           simp: scripts_ok_def ssl_record_scripts map_of_dict_set base_record_def)

lemma tls_stage_addr:
  "tls_stage env req hostrec = Inr (res, hostrec1) \<Longrightarrow> addr hostrec1 = addr hostrec"
  using tls_stage_host [of env req hostrec res hostrec1] by auto

lemma tls_stage_no_tls:
  "tls_stage env req hostrec = Inr (res, hostrec1) \<Longrightarrow> find_tls req = Inr JNull \<Longrightarrow>
   res = base_record"
  by (simp add: tls_stage_def)

lemma endswith_both:
  assumes "endswith s p" and "endswith s q" and "length q \<le> length p"
  shows "endswith p q"
proof -
  from assms have p: "drop (length s - length p) s = p" and lp: "length p \<le> length s"
    and q: "drop (length s - length q) s = q"
    by (simp_all add: endswith_def)
  have "drop (length p - length q) (drop (length s - length p) s) = drop (length s - length q) s"
    using lp assms(3) by simp
  with p q have "drop (length p - length q) p = q" by simp
  with assms(3) show ?thesis by (simp add: endswith_def)
qed

lemma owa_path_not_git:
  "endswith path ''/owa/auth/logon.aspx'' \<Longrightarrow> \<not> endswith path ''/.git/index''"
proof
  assume o: "endswith path ''/owa/auth/logon.aspx''" and g: "endswith path ''/.git/index''"
  from endswith_both [OF o g] show False by (simp add: endswith_def)
qed

lemma url_stage_git:
  assumes "map_of url ''path'' = Some (JStr path)" and "url_port url = Inr port"
    and "endswith path ''/.git/index''"
  shows "url_stage env a resp req (JObj url) res = git_detector a resp path port res"
proof -
  from assms(1) have "url \<noteq> []" by auto
  with assms show ?thesis by (simp add: url_stage_def dict_get_def)
qed

lemma url_stage_owa:
  assumes "map_of url ''path'' = Some (JStr path)" and "url_port url = Inr port"
    and "endswith path ''/owa/auth/logon.aspx''"
  shows "url_stage env a resp req (JObj url) res = owa_detector env resp path port res"
proof -
  from assms(1) have "url \<noteq> []" by auto
  with assms owa_path_not_git [OF assms(3)] show ?thesis
    by (simp add: url_stage_def dict_get_def)
qed

lemma example_has_required:
  "has_required [(''response'', JObj (example_response status req extra))]
     (example_response status req extra) req"
  by (simp add: has_required_def example_response_def)

lemma example_data_reconcile_shape:
  "reconcile (example_data status req extra)
     = (None, JObj [(''response'', JObj (example_response status req extra))])"
  by (simp add: example_data_def reconcile_def)

lemma tls_stage_scripts:
  assumes "tls_stage env req hostrec = Inr (res, hostrec1)"
  shows "scripts_of (JObj res) = [] \<or>
         (\<exists>out info. scripts_of (JObj res) = [ssl_cert_script out info])"
  using tls_stage_results [OF assms]
  by (fastforce simp: scripts_of_JObj ssl_record_scripts base_record_def map_of_dict_set)

lemma map_of_port_scripts:
  "map_of (dict_set (dict_set res ''port'' v) ''scripts'' w) ''port'' = Some v"
  by (simp add: map_of_dict_set)

lemma git_detector_found:
  assumes "dict_get resp ''status_code'' JNull = JInt 200"
    and "map_of resp ''body'' = Some (JStr body)" and "startswith body ''DIRC''"
    and "scripts_ok res"
  shows "git_detector a resp path port res =
           Return (JObj (dict_set (dict_set res ''port'' (JInt port)) ''scripts''
                           (JList (scripts_of (JObj res) @ [git_script (git_repository a port path)]))))"
  using assms by (simp add: git_detector_def dict_get_def append_script_ok)

lemma git_script_fields:
  "field ''id'' (git_script repo) = Some (JStr ''http-git'')"
  "field ''http-git'' (git_script repo) =
     Some (JList [JObj [(''repository'', JStr repo), (''files-found'', JList [JStr ''.git/index''])]])"
  by (simp_all add: git_script_def field_def)

lemma ssl_cert_script_id: "field ''id'' (ssl_cert_script out info) = Some (JStr ''ssl-cert'')"
  by (simp add: ssl_cert_script_def field_def)

lemma owa_match_at_Nil [simp]: "owa_match_at [] = None"
  by (simp add: owa_match_at_def startswith_def owa_prefix_def)










subsection \<open>The port through the stages\<close>




lemma dict_update_other:
  "k \<notin> fst ` set e \<Longrightarrow> map_of (dict_update d e) k = map_of d k"
  unfolding dict_update_def
  by (induction e arbitrary: d) (auto simp: map_of_dict_set)
















subsection \<open>The headers\<close>

lemma map_of_dict_update:
  "map_of (dict_update d e) k = (case map_of (rev e) k of Some v \<Rightarrow> Some v | None \<Rightarrow> map_of d k)"
  unfolding dict_update_def
  by (induction e arbitrary: d) (auto simp: map_of_dict_set split: option.splits)

lemma dict_del_absent: "k \<notin> fst ` set d \<Longrightarrow> dict_del d k = d"
  unfolding dict_del_def by (induction d) auto

lemma dict_update_Cons:
  "dict_update d (kv # e) = dict_update (dict_set d (fst kv) (snd kv)) e"
  by (simp add: dict_update_def)

lemma unknown_pair_Some:
  "unknown_pair unk = Some (k, v) \<Longrightarrow>
   py_getitem unk ''value'' = Inr v \<and> py_getitem unk ''key'' = Inr (JStr k)"
  by (auto simp: unknown_pair_def split: sum.splits json.splits)

lemma flatten_unknown_typed:
  "list_all (\<lambda>u. unknown_pair u \<noteq> None) unks \<Longrightarrow>
   flatten_unknown h unks = (None, dict_update h (map (\<lambda>u. the (unknown_pair u)) unks))"
proof (induction unks arbitrary: h)
  case Nil
  then show ?case by (simp add: dict_update_def)
next
  case (Cons unk unks)
  then obtain k v where kv: "unknown_pair unk = Some (k, v)" by auto
  from unknown_pair_Some [OF kv] Cons show ?case
    by (simp add: kv dict_update_Cons)
qed

lemma flatten_headers_typed:
  assumes "unknown_pairs h = Some us"
  shows "flatten_headers (JObj h) =
           (if ''unknown'' \<in> fst ` set h then Some (flat_headers h us) else None,
            Inr (flat_headers h us))"
proof (cases "map_of h ''unknown''")
  case None
  then have n: "''unknown'' \<notin> fst ` set h" by (simp add: map_of_eq_None_iff)
  from None assms have "us = []" by (simp add: unknown_pairs_def)
  with n show ?thesis
    by (simp add: flatten_headers_def dict_del_absent dict_update_def flat_headers_def)
next
  case (Some b)
  then have k: "''unknown'' \<in> fst ` set h"
    by (metis domI dom_map_of_conv_image_fst)
  from Some assms obtain unks where b: "b = JList unks"
    and a: "list_all (\<lambda>u. unknown_pair u \<noteq> None) unks"
    and u: "us = map (\<lambda>u. the (unknown_pair u)) unks"
    by (auto simp: unknown_pairs_def split: json.splits if_splits)
  from Some b k show ?thesis
    by (simp add: flatten_headers_def dict_get_def flatten_unknown_typed [OF a] u Let_def
          flat_headers_def)
qed





lemma example_headers_pairs: "unknown_pairs example_headers = Some [(''x-custom'', JStr ''1'')]"
  by (simp add: unknown_pairs_def example_headers_def unknown_pair_def)

lemma example_headers_flat:
  "flat_headers example_headers [(''x-custom'', JStr ''1'')] =
     [(''content_type'', JList [JStr ''text/html'']), (''x-custom'', JStr ''1'')]"
  by (simp add: flat_headers_def example_headers_def dict_del_def dict_update_def)



subsection \<open>The argument after the call\<close>

lemma no_detector_Next:
  assumes "no_detector req"
  shows "\<exists>port. url_stage env a resp req (dict_get req ''url'' JNull) res = Next port"
proof (cases "url_of req")
  case None
  with assms show ?thesis by (simp add: no_detector_def url_stage_def)
next
  case (Some u)
  then have u: "dict_get req ''url'' JNull = JObj u" and n: "u \<noteq> []"
    by (auto simp: url_of_def split: json.splits if_splits)
  from assms Some have h: "host_typed u" by (simp add: no_detector_def)
  from assms Some obtain path where p: "map_of u ''path'' = Some (JStr path)"
    and g: "\<not> endswith path ''/.git/index''" and o: "\<not> endswith path ''/owa/auth/logon.aspx''"
    by (auto simp: no_detector_def split: option.splits json.splits)
  from url_port_typed [OF h] obtain port where "url_port u = Inr port" by blast
  with u n p g o show ?thesis by (simp add: url_stage_def dict_get_def)
qed

lemma status_banner_protocol:
  "status_banner env resp = Inr banner \<Longrightarrow> \<exists>name. protocol_name resp = Inr name"
  by (auto simp: status_banner_def split: sum.splits)

lemma generic_stage_changed:
  assumes "status_banner env resp = Inr banner"
    and "map_of resp ''headers'' = Some (JObj h)" and "h \<noteq> []"
  shows "fst (generic_stage env resp req url res) = fst (flatten_headers (JObj h))"
proof -
  from status_banner_protocol [OF assms(1)] obtain name where
    n: "protocol_name resp = Inr name" by blast
  from assms(2,3) have t: "dict_get resp ''headers'' JNull = JObj h"
    by (simp add: dict_get_def)
  have 1: "fst (http_headers_block env resp req res) = fst (flatten_headers (JObj h))"
    by (simp add: http_headers_block_def n t split: prod.splits sum.splits)
  have 2: "fst (headers_block env resp req res banner) = fst (http_headers_block env resp req res)"
    using assms(3) by (simp add: headers_block_def t split: prod.splits sum.splits)
  have 3: "fst (generic_stage env resp req url res) = fst (headers_block env resp req res banner)"
    by (simp add: generic_stage_def assms(1) split: prod.splits sum.splits)
  from 1 2 3 show ?thesis by simp
qed

lemma reconcile_wrapper:
  assumes "map_of d ''result'' = Some (JObj r)"
  shows "reconcile (JObj d) = (None, JObj (dict_update (dict_del d ''result'') r))"
proof -
  from assms have "''result'' \<in> fst ` set d"
    by (metis domI dom_map_of_conv_image_fst)
  with assms show ?thesis by (simp add: reconcile_def dict_get_def)
qed

lemma reconcile_without_wrapper:
  "map_of d ''result'' = None \<Longrightarrow> reconcile (JObj d) = (None, JObj d)"
  by (simp add: reconcile_def map_of_eq_None_iff)

lemma data_after_cases:
  assumes "truthy data" and "reconcile data = (None, JObj d1)"
  shows "data_after (zgrap_parser_http env data hostrec) = JObj d1 \<or>
         (\<exists>x. data_after (zgrap_parser_http env data hostrec) = JObj (dict_set d1 ''response'' x))"
proof (cases env data hostrec rule: zgrap_parser_http_cases)
  case (Generic data1 w resp req url res hostrec1 port changed out)
  with assms show ?thesis by (cases changed) (auto simp: with_headers_def)
qed (use assms in auto)

lemma result_wrapper_merged:
  assumes "data = JObj d" and "map_of d ''result'' = Some (JObj r)"
  shows "\<exists>d'. data_after (zgrap_parser_http env data hostrec) = JObj d' \<and>
            (\<forall>k. k \<noteq> ''response'' \<longrightarrow>
                  map_of d' k = map_of (dict_update (dict_del d ''result'') r) k) \<and>
            (''result'' \<notin> fst ` set r \<longrightarrow>
               map_of d' ''result'' = None \<and> reconcile (JObj d') = (None, JObj d'))"
proof -
  let ?m = "dict_update (dict_del d ''result'') r"
  from assms have t: "truthy data" by auto
  from assms have rc: "reconcile data = (None, JObj ?m)" by (simp add: reconcile_wrapper)
  have m: "''result'' \<notin> fst ` set r \<Longrightarrow> map_of ?m ''result'' = None"
    by (simp add: dict_update_other map_of_dict_del)
  from data_after_cases [OF t rc, of env hostrec] show ?thesis
  proof
    assume "data_after (zgrap_parser_http env data hostrec) = JObj ?m"
    with m show ?thesis by (auto simp: reconcile_without_wrapper)
  next
    assume "\<exists>x. data_after (zgrap_parser_http env data hostrec) = JObj (dict_set ?m ''response'' x)"
    then obtain x where
      x: "data_after (zgrap_parser_http env data hostrec) = JObj (dict_set ?m ''response'' x)"
      by blast
    have "''result'' \<notin> fst ` set r \<Longrightarrow> map_of (dict_set ?m ''response'' x) ''result'' = None"
      using m by (simp add: map_of_dict_set)
    with x show ?thesis by (auto simp: map_of_dict_set reconcile_without_wrapper)
  qed
qed

lemma unknown_bucket_removed:
  assumes "truthy data" and "reconcile data = (None, JObj d1)" and "has_required d1 resp req"
    and "tls_typed req" and "no_detector req" and "status_banner env resp = Inr banner"
    and "map_of resp ''headers'' = Some (JObj h)" and "''unknown'' \<in> fst ` set h"
    and "unknown_pairs h = Some us"
  shows "data_after (zgrap_parser_http env data hostrec) =
           JObj (dict_set d1 ''response'' (JObj (dict_set resp ''headers'' (JObj (flat_headers h us)))))"
proof -
  from tls_stage_typed [OF assms(4)] obtain res hostrec1 where
    t: "tls_stage env req hostrec = Inr (res, hostrec1)" by blast
  from no_detector_Next [OF assms(5)] obtain port where
    u: "url_stage env (addr hostrec1) resp req (dict_get req ''url'' JNull) res = Next port"
    by blast
  from assms(8) have n: "h \<noteq> []" by auto
  let ?g = "generic_stage env resp req (dict_get req ''url'' JNull) (dict_set res ''port'' (JInt port))"
  have "fst ?g = Some (flat_headers h us)"
    using generic_stage_changed [OF assms(6,7) n] flatten_headers_typed [OF assms(9)] assms(8)
    by simp
  then obtain out where g: "?g = (Some (flat_headers h us), out)"
    by (cases ?g) simp
  from run_generic [OF assms(1,2) required_fields_typed [OF assms(3)] t u g]
  show ?thesis by (simp add: with_headers_def)
qed

lemma no_bucket_unchanged:
  assumes "truthy data" and "reconcile data = (None, JObj d1)" and "has_required d1 resp req"
    and "tls_typed req" and "no_detector req" and "status_banner env resp = Inr banner"
    and "map_of resp ''headers'' = Some (JObj h)" and "h \<noteq> []"
    and "''unknown'' \<notin> fst ` set h"
  shows "data_after (zgrap_parser_http env data hostrec) = JObj d1"
proof -
  from tls_stage_typed [OF assms(4)] obtain res hostrec1 where
    t: "tls_stage env req hostrec = Inr (res, hostrec1)" by blast
  from no_detector_Next [OF assms(5)] obtain port where
    u: "url_stage env (addr hostrec1) resp req (dict_get req ''url'' JNull) res = Next port"
    by blast
  let ?g = "generic_stage env resp req (dict_get req ''url'' JNull) (dict_set res ''port'' (JInt port))"
  have "fst ?g = None"
    using generic_stage_changed [OF assms(6,7,8)] assms(9)
    by (simp add: flatten_headers_def)
  then obtain out where g: "?g = (None, out)"
    by (cases ?g) simp
  from run_generic [OF assms(1,2) required_fields_typed [OF assms(3)] t u g]
  show ?thesis by simp
qed

lemma flat_headers_no_bucket:
  assumes "''unknown'' \<notin> fst ` set us"
  shows "map_of (flat_headers h us) ''unknown'' = None"
    and "flatten_headers (JObj (flat_headers h us)) = (None, Inr (flat_headers h us))"
proof -
  show n: "map_of (flat_headers h us) ''unknown'' = None"
    using assms by (simp add: flat_headers_def dict_update_other map_of_dict_del)
  then have "''unknown'' \<notin> fst ` set (flat_headers h us)"
    by (simp add: map_of_eq_None_iff)
  then show "flatten_headers (JObj (flat_headers h us)) = (None, Inr (flat_headers h us))"
    by (simp add: flatten_headers_def)
qed

subsection \<open>The sort key of the versions\<close>

text \<open>Line 136 sorts the versions by \<open>[int(x) for x in v.split('.')]\<close>. Every version the
  pattern captures is made of non-empty runs of digits between dots, \<open>int\<close> reads each of
  them without a \<open>ValueError\<close>, and the numbers are those of \<open>version_key\<close>.\<close>

lemma int_digits_all:
  "\<forall>c \<in> set cs. is_digit c \<Longrightarrow>
   int_digits cs acc = Some (foldl (\<lambda>a c. 10 * a + digit_val c) acc cs)"
  by (induction cs acc rule: int_digits.induct) simp_all

lemma digit_not_space: "is_digit c \<Longrightarrow> \<not> is_space c"
  by (auto simp: is_digit_def is_space_def)

lemma strip_digits:
  assumes "s \<noteq> []" and "\<forall>c \<in> set s. is_digit c"
  shows "strip s = s"
proof -
  from assms have "\<not> is_space (hd s)" and "\<not> is_space (last s)"
    by (simp_all add: digit_not_space)
  with assms(1) have "dropWhile is_space s = s" and "dropWhile is_space (rev s) = rev s"
    by (simp_all add: dropWhile_eq_self_iff hd_rev)
  then show ?thesis by (simp add: strip_def)
qed

lemma py_int_digits:
  assumes "s \<noteq> []" and "\<forall>c \<in> set s. is_digit c"
  shows "py_int s = Some (digits_value s)"
proof -
  from assms obtain c cs where s: "s = c # cs" by (cases s) auto
  with assms(2) have d: "is_digit c" and ds: "\<forall>c \<in> set cs. is_digit c" by simp_all
  from d have "c \<noteq> CHR ''-''" and "c \<noteq> CHR ''+''"
    by (auto simp: is_digit_def)
  moreover from strip_digits [OF assms] s have "strip (c # cs) = c # cs" by simp
  ultimately show ?thesis using d s
    by (simp add: py_int_def int_unsigned_def int_digits_all [OF ds] digits_value_def)
qed

lemma split_on_pieces:
  "\<forall>c \<in> set v. ver_char c \<Longrightarrow> \<forall>c \<in> set cur. is_digit c \<Longrightarrow>
   p \<in> set (split_on CHR ''.'' v cur) \<Longrightarrow> \<forall>c \<in> set p. is_digit c"
proof (induction v arbitrary: cur)
  case Nil
  then show ?case by simp
next
  case (Cons x xs)
  show ?case
  proof (cases "x = CHR ''.''")
    case True
    with Cons.prems(3) have "p = rev cur \<or> p \<in> set (split_on CHR ''.'' xs [])" by simp
    then show ?thesis
    proof
      assume "p = rev cur"
      with Cons.prems(2) show ?thesis by simp
    next
      assume "p \<in> set (split_on CHR ''.'' xs [])"
      with Cons.IH [of "[]"] Cons.prems(1) show ?thesis by simp
    qed
  next
    case False
    with Cons.prems(1) have "is_digit x" by (simp add: ver_char_def)
    with Cons.prems(2) have "\<forall>c \<in> set (x # cur). is_digit c" by simp
    moreover from False Cons.prems(3) have "p \<in> set (split_on CHR ''.'' xs (x # cur))" by simp
    moreover from Cons.prems(1) have "\<forall>c \<in> set xs. ver_char c" by simp
    ultimately show ?thesis using Cons.IH [of "x # cur"] by blast
  qed
qed

lemma owa_match_at_version:
  "owa_match_at s = Some (v, n) \<Longrightarrow> dotted_version v \<and> (\<forall>c \<in> set v. ver_char c)"
  by (auto simp: owa_match_at_def Let_def split: if_splits dest: set_takeWhileD)

lemma owa_finditer_versions:
  "v \<in> set (owa_finditer k s) \<Longrightarrow> dotted_version v \<and> (\<forall>c \<in> set v. ver_char c)"
  by (induction k s rule: owa_finditer.induct)
     (auto split: option.splits dest: owa_match_at_version)

lemma version_key_int:
  assumes "v \<in> set (owa_finditer 0 body)"
  shows "map py_int (split_on CHR ''.'' v []) = map Some (version_key v)"
proof -
  from owa_finditer_versions [OF assms] have d: "dotted_version v"
    and c: "\<forall>c \<in> set v. ver_char c" by simp_all
  have "py_int p = Some (digits_value p)" if "p \<in> set (split_on CHR ''.'' v [])" for p
  proof -
    from d that have "p \<noteq> []" by (auto simp: dotted_version_def Let_def)
    moreover from split_on_pieces [OF c _ that] have "\<forall>c \<in> set p. is_digit c" by simp
    ultimately show ?thesis by (rule py_int_digits)
  qed
  then show ?thesis by (simp add: version_key_def)
qed

subsection \<open>Claim C1: no exception on incomplete input\<close>

lemma example_data_truthy: "truthy (example_data status req extra)"
  by (simp add: example_data_def)

lemma example_data_reconcile:
  "reconcile (example_data status req extra) = (None, example_data status req extra)"
  by (simp add: example_data_def reconcile_def)

lemma example_data_required_fields:
  "required_fields (example_data status req extra) =
     (None, Next (example_response status req extra, req, dict_get req ''url'' JNull))"
  by (simp add: example_data_def example_response_def required_fields_def missing_fields_def
        needed_fields_def dict_get_def split: option.splits)

lemma tls_stage_without_tls:
  "map_of req ''tls_handshake'' = None \<Longrightarrow> map_of req ''tls_log'' = None \<Longrightarrow>
   tls_stage env req hostrec = Inr (base_record, hostrec)"
  by (simp add: tls_stage_def find_tls_def)

text \<open>
  Claim C1 says that the function raises no exception on well-formed JSON, whatever
  optional part is absent, the sub-fields of the URL included. It does raise: for a URL
  that has a host and no path, \<open>url.get('path')\<close> of line 109 is \<open>None\<close> and calling
  \<open>endswith\<close> on it raises \<open>AttributeError\<close>, with any collaborators and any host record.
  (The neighbouring reads \<open>url.get('host', '')\<close> and \<open>resp.get('body', '')\<close> pass a default.)
\<close>

theorem url_without_path_raises:
  "outcome (zgrap_parser_http env url_without_path hostrec) = Inl AttributeError"
proof -
  let ?req = "[(''url'', JObj [(''host'', JStr ''example.com'')])]"
  have u: "url_stage env (addr hostrec) (example_response 200 ?req []) ?req
             (dict_get ?req ''url'' JNull) base_record = Raise AttributeError"
    by (simp add: url_stage_def url_port_def dict_get_def startswith_def)
  have "zgrap_parser_http env (example_data 200 ?req []) hostrec =
          \<lparr>outcome = Inl AttributeError, data_after = example_data 200 ?req [],
           host_after = hostrec, warnings = []\<rparr>"
    by (rule run_url_raises [OF example_data_truthy example_data_reconcile
          example_data_required_fields tls_stage_without_tls u]) simp_all
  then show ?thesis by (simp add: url_without_path_def)
qed

text \<open>The same happens on the generic path when the response has no \<open>protocol\<close>, a field
  that line 56 does not require and line 164 reads: \<open>KeyError\<close>.\<close>

lemma response_without_protocol_raises:
  "outcome (zgrap_parser_http env response_without_protocol hostrec) = Inl KeyError"
proof -
  let ?resp = "[(''request'', JObj []), (''status_code'', JInt 200),
                (''status_line'', JStr ''200 OK'')]"
  have t: "truthy response_without_protocol"
    by (simp add: response_without_protocol_def)
  have r: "reconcile response_without_protocol = (None, response_without_protocol)"
    by (simp add: response_without_protocol_def reconcile_def)
  have f: "required_fields response_without_protocol = (None, Next (?resp, [], JNull))"
    by (simp add: response_without_protocol_def required_fields_def missing_fields_def
          needed_fields_def)
  have s: "tls_stage env [] hostrec = Inr (base_record, hostrec)"
    by (simp add: tls_stage_without_tls)
  have u: "url_stage env (addr hostrec) ?resp [] JNull base_record = Next 80"
    by (simp add: url_stage_def dict_get_def)
  have g: "generic_stage env ?resp [] JNull (dict_set base_record ''port'' (JInt 80))
             = (None, Inl KeyError)"
    by (simp add: generic_stage_def status_banner_def protocol_name_def)
  show ?thesis
    by (simp add: run_generic [OF t r f s u g])
qed

subsection \<open>Claim C2: the Git index\<close>

lemma git_url_port:
  "url_port [(''host'', JStr ''example.com:8080''), (''path'', JStr ''/x/.git/index'')] = Inr 8080"
  by (simp add: url_port_def dict_get_def startswith_def Let_def after_colon_def py_int_def
        strip_def is_space_def int_unsigned_def is_digit_def digit_val_def)

lemma str_int_8080: "str_int 8080 = ''8080''"
  by (simp add: str_int_def str_nat.simps digit_char_def)

lemma find_tls_git_request: "find_tls git_request = Inr JNull"
  by (simp add: find_tls_def git_request_def)

lemma git_example_run:
  "outcome (zgrap_parser_http example_env git_example example_host) =
     Inr (JObj (base_record @ [(''port'', JInt 8080),
                               (''scripts'', JList [git_script ''192.0.2.1:8080/x/.git/''])]))"
proof -
  let ?url = "[(''host'', JStr ''example.com:8080''), (''path'', JStr ''/x/.git/index'')]"
  let ?resp = "example_response 200 git_request [(''body'', JStr ''DIRC'')]"
  have t: "tls_stage example_env git_request example_host = Inr (base_record, example_host)"
    by (simp add: tls_stage_def find_tls_git_request)
  have u: "dict_get git_request ''url'' JNull = JObj ?url"
    by (simp add: dict_get_def git_request_def)
  have g: "git_detector ''192.0.2.1'' ?resp ''/x/.git/index'' 8080 base_record =
             Return (JObj (base_record @ [(''port'', JInt 8080),
                       (''scripts'', JList [git_script ''192.0.2.1:8080/x/.git/''])]))"
    by (simp add: git_detector_def dict_get_def example_response_def startswith_def
          append_script_def base_record_def git_repository_def str_int_8080)
  have "url_stage example_env (addr example_host) ?resp git_request
          (dict_get git_request ''url'' JNull) base_record =
        Return (JObj (base_record @ [(''port'', JInt 8080),
                       (''scripts'', JList [git_script ''192.0.2.1:8080/x/.git/''])]))"
    unfolding u
    by (simp add: url_stage_git [OF _ git_url_port] endswith_def g example_host_def)
  from run_url_returns [OF example_data_truthy example_data_reconcile
         example_data_required_fields t this]
  show ?thesis by (simp add: git_example_def)
qed

text \<open>
  Claim C2 gives the repository as \<open><addr>:<port>/x/.git\<close>. Line 117 cuts five characters
  from the path, the word \<open>index\<close>, so the slash before it stays: for the host
  \<open>example.com:8080\<close> at the address 192.0.2.1 the repository is
  \<open>192.0.2.1:8080/x/.git/\<close>.
\<close>

theorem git_repository_keeps_slash:
  "outcome (zgrap_parser_http example_env git_example example_host) =
     Inr (JObj (base_record @ [(''port'', JInt 8080),
                               (''scripts'', JList [git_script ''192.0.2.1:8080/x/.git/''])]))
   \<and> field ''http-git'' (git_script ''192.0.2.1:8080/x/.git/'') \<noteq>
       Some (JList [JObj [(''repository'', JStr ''192.0.2.1:8080/x/.git''),
                          (''files-found'', JList [JStr ''.git/index''])]])"
  by (simp add: git_example_run git_script_fields)

text \<open>
  Claim C2, amended: when the path of the URL is \<open>/x/.git/index\<close>, the status code is 200
  and the body starts with \<open>DIRC\<close>, the function returns a record with the inferred port,
  whose scripts are the scripts of the TLS stage (none without TLS data, at most the
  script \<open>ssl-cert\<close> otherwise) followed by one script \<open>http-git\<close>, the only script with
  that id; its payload has \<open>files-found\<close> equal to \<open>['.git/index']\<close> and the repository
  \<open><addr>:<port>/x/.git/\<close>, the path without its last five characters.
\<close>

theorem git_index_found:
  assumes "truthy data" and "reconcile data = (None, JObj d)" and "has_required d resp req"
    and "tls_typed req"
    and "map_of req ''url'' = Some (JObj url)" and "host_typed url"
    and "map_of url ''path'' = Some (JStr ''/x/.git/index'')"
    and "dict_get resp ''status_code'' JNull = JInt 200"
    and "map_of resp ''body'' = Some (JStr body)" and "startswith body ''DIRC''"
  shows "\<exists>res hostrec1 port r s.
           tls_stage env req hostrec = Inr (res, hostrec1) \<and> url_port url = Inr port \<and>
           outcome (zgrap_parser_http env data hostrec) = Inr (JObj r) \<and>
           map_of r ''port'' = Some (JInt port) \<and>
           scripts_of (JObj r) = scripts_of (JObj res) @ [s] \<and>
           filter (\<lambda>x. field ''id'' x = Some (JStr ''http-git'')) (scripts_of (JObj r)) = [s] \<and>
           (find_tls req = Inr JNull \<longrightarrow> scripts_of (JObj r) = [s]) \<and>
           field ''id'' s = Some (JStr ''http-git'') \<and>
           field ''http-git'' s =
             Some (JList [JObj [(''repository'',
                                 JStr (addr hostrec @ '':'' @ str_int port @ ''/x/.git/'')),
                                (''files-found'', JList [JStr ''.git/index''])]])"
proof -
  from tls_stage_typed [OF assms(4)] obtain res hostrec1 where
    t: "tls_stage env req hostrec = Inr (res, hostrec1)" by blast
  from url_port_typed [OF assms(6)] obtain port where p: "url_port url = Inr port" by blast
  from assms(5) have u: "dict_get req ''url'' JNull = JObj url" by (simp add: dict_get_def)
  let ?repo = "addr hostrec @ '':'' @ str_int port @ ''/x/.git/''"
  let ?s = "git_script ?repo"
  let ?r = "dict_set (dict_set res ''port'' (JInt port)) ''scripts''
              (JList (scripts_of (JObj res) @ [?s]))"
  have e: "endswith ''/x/.git/index'' ''/.git/index''" by (simp add: endswith_def)
  have g: "git_repository (addr hostrec1) port ''/x/.git/index'' = ?repo"
    by (simp add: git_repository_def tls_stage_addr [OF t])
  have "url_stage env (addr hostrec1) resp req (JObj url) res = Return (JObj ?r)"
    by (simp add: url_stage_git [OF assms(7) p e] g
          git_detector_found [OF assms(8,9,10) tls_stage_scripts_ok [OF t]])
  then have "url_stage env (addr hostrec1) resp req (dict_get req ''url'' JNull) res
               = Return (JObj ?r)"
    by (simp only: u)
  from run_url_returns [OF assms(1,2) required_fields_typed [OF assms(3)] t this]
  have o: "outcome (zgrap_parser_http env data hostrec) = Inr (JObj ?r)" by simp
  have f: "filter (\<lambda>x. field ''id'' x = Some (JStr ''http-git'')) (scripts_of (JObj ?r)) = [?s]"
    using tls_stage_scripts [OF t]
    by (auto simp: git_script_fields ssl_cert_script_id)
  have n: "find_tls req = Inr JNull \<longrightarrow> scripts_of (JObj ?r) = [?s]"
    using tls_stage_no_tls [OF t] by (auto simp: scripts_of_JObj base_record_def)
  from t p o f n show ?thesis
    by (intro exI [of _ res] exI [of _ hostrec1] exI [of _ port] exI [of _ ?r] exI [of _ ?s])
       (simp add: map_of_port_scripts git_script_fields)
qed

theorem git_index_found_witness:
  "startswith ''DIRC'' ''DIRC'' \<and> find_tls git_request = Inr JNull \<and>
   (\<exists>r s. outcome (zgrap_parser_http example_env git_example example_host) = Inr (JObj r) \<and>
          map_of r ''port'' = Some (JInt 8080) \<and> scripts_of (JObj r) = [s] \<and>
          field ''http-git'' s =
            Some (JList [JObj [(''repository'', JStr ''192.0.2.1:8080/x/.git/''),
                               (''files-found'', JList [JStr ''.git/index''])]]))"
proof -
  let ?url = "[(''host'', JStr ''example.com:8080''), (''path'', JStr ''/x/.git/index'')]"
  let ?resp = "example_response 200 git_request [(''body'', JStr ''DIRC'')]"
  have 4: "tls_typed git_request"
    by (simp add: tls_typed_def git_request_def absent_or_object_def)
  have 5: "map_of git_request ''url'' = Some (JObj ?url)"
    by (simp add: git_request_def)
  have 6: "host_typed ?url" by (simp add: host_typed_def absent_or_text_def)
  have 7: "map_of ?url ''path'' = Some (JStr ''/x/.git/index'')" by simp
  have 8: "dict_get ?resp ''status_code'' JNull = JInt 200"
    by (simp add: dict_get_def example_response_def)
  have 9: "map_of ?resp ''body'' = Some (JStr ''DIRC'')"
    by (simp add: example_response_def)
  have 10: "startswith ''DIRC'' ''DIRC''" by (simp add: startswith_def)
  from git_index_found [OF example_data_truthy example_data_reconcile_shape
      example_has_required 4 5 6 7 8 9 10, of example_env example_host]
  obtain res hostrec1 port r s where
    "url_port ?url = Inr port"
    "outcome (zgrap_parser_http example_env
        (example_data 200 git_request [(''body'', JStr ''DIRC'')]) example_host) = Inr (JObj r)"
    "map_of r ''port'' = Some (JInt port)"
    "find_tls git_request = Inr JNull \<longrightarrow> scripts_of (JObj r) = [s]"
    "field ''http-git'' s =
       Some (JList [JObj [(''repository'',
                           JStr (addr example_host @ '':'' @ str_int port @ ''/x/.git/'')),
                          (''files-found'', JList [JStr ''.git/index''])]])"
    by blast
  with 10 show ?thesis
    by (auto simp: git_url_port find_tls_git_request git_example_def str_int_8080
          example_host_def)
qed

subsection \<open>Claim C3: the port\<close>







subsection \<open>Claim C4: a detector whose content check fails\<close>

text \<open>
  Claim C4: when the path of the URL ends with \<open>/.git/index\<close> and the status code is not
  200 or the body does not start with \<open>DIRC\<close>, or the path ends with
  \<open>/owa/auth/logon.aspx\<close> and the status code is not 200 or the pattern of line 34 finds
  no version in the body, the function returns \<open>{}\<close>: it does not go on to the generic
  path. The input has the required fields; TLS data, the host of the URL and the body may
  be absent.
\<close>

theorem detector_hard_fail:
  assumes "truthy data" and "reconcile data = (None, JObj d)" and "has_required d resp req"
    and "tls_typed req"
    and "map_of req ''url'' = Some (JObj url)" and "host_typed url"
    and "map_of url ''path'' = Some (JStr path)"
    and "dict_get resp ''body'' (JStr []) = JStr body"
    and "(endswith path ''/.git/index'' \<and>
            (dict_get resp ''status_code'' JNull \<noteq> JInt 200 \<or> \<not> startswith body ''DIRC''))
       \<or> (endswith path ''/owa/auth/logon.aspx'' \<and>
            (dict_get resp ''status_code'' JNull \<noteq> JInt 200 \<or> owa_finditer 0 body = []))"
  shows "outcome (zgrap_parser_http env data hostrec) = Inr (JObj [])"
proof -
  from tls_stage_typed [OF assms(4)] obtain res hostrec1 where
    t: "tls_stage env req hostrec = Inr (res, hostrec1)" by blast
  from url_port_typed [OF assms(6)] obtain port where p: "url_port url = Inr port" by blast
  from assms(5) have u: "dict_get req ''url'' JNull = JObj url" by (simp add: dict_get_def)
  have "url_stage env (addr hostrec1) resp req (JObj url) res = Return (JObj [])"
    using assms(9)
  proof
    assume g: "endswith path ''/.git/index'' \<and>
            (dict_get resp ''status_code'' JNull \<noteq> JInt 200 \<or> \<not> startswith body ''DIRC'')"
    then show ?thesis
      using assms(8) by (auto simp: url_stage_git [OF assms(7) p] git_detector_def)
  next
    assume o: "endswith path ''/owa/auth/logon.aspx'' \<and>
            (dict_get resp ''status_code'' JNull \<noteq> JInt 200 \<or> owa_finditer 0 body = [])"
    then show ?thesis
      using assms(8) by (auto simp: url_stage_owa [OF assms(7) p] owa_detector_def)
  qed
  then have "url_stage env (addr hostrec1) resp req (dict_get req ''url'' JNull) res
               = Return (JObj [])"
    by (simp only: u)
  from run_url_returns [OF assms(1,2) required_fields_typed [OF assms(3)] t this]
  show ?thesis by simp
qed

theorem detector_hard_fail_witness:
  "endswith ''/x/.git/index'' ''/.git/index''
   \<and> dict_get (example_response 404 git_request []) ''status_code'' JNull \<noteq> JInt 200
   \<and> outcome (zgrap_parser_http example_env (example_data 404 git_request []) example_host)
       = Inr (JObj [])"
proof -
  let ?url = "[(''host'', JStr ''example.com:8080''), (''path'', JStr ''/x/.git/index'')]"
  have 4: "tls_typed git_request"
    by (simp add: tls_typed_def git_request_def absent_or_object_def)
  have 5: "map_of git_request ''url'' = Some (JObj ?url)"
    by (simp add: git_request_def)
  have 6: "host_typed ?url" by (simp add: host_typed_def absent_or_text_def)
  have 7: "map_of ?url ''path'' = Some (JStr ''/x/.git/index'')" by simp
  have 8: "dict_get (example_response 404 git_request []) ''body'' (JStr []) = JStr []"
    by (simp add: dict_get_def example_response_def)
  have e: "endswith ''/x/.git/index'' ''/.git/index''" by (simp add: endswith_def)
  have s: "dict_get (example_response 404 git_request []) ''status_code'' JNull \<noteq> JInt 200"
    by (simp add: dict_get_def example_response_def)
  from e s have 9:
    "(endswith ''/x/.git/index'' ''/.git/index'' \<and>
        (dict_get (example_response 404 git_request []) ''status_code'' JNull \<noteq> JInt 200
         \<or> \<not> startswith [] ''DIRC''))
     \<or> (endswith ''/x/.git/index'' ''/owa/auth/logon.aspx'' \<and>
        (dict_get (example_response 404 git_request []) ''status_code'' JNull \<noteq> JInt 200
         \<or> owa_finditer 0 [] = []))"
    by blast
  from e s detector_hard_fail [OF example_data_truthy example_data_reconcile_shape
      example_has_required 4 5 6 7 8 9, of example_env example_host]
  show ?thesis by blast
qed

subsection \<open>Claim C5: missing required fields\<close>







subsection \<open>Claim C6: the version of Outlook Web Access\<close>









subsection \<open>Claim C7: a returned record that is not empty has its port\<close>

lemma plain_example_run:
  "zgrap_parser_http example_env (example_data 200 [] []) example_host =
     \<lparr>outcome = Inr (JObj (base_record @ [(''port'', JInt 80)])),
      data_after = example_data 200 [] [], host_after = example_host, warnings = []\<rparr>"
proof -
  have u: "url_stage example_env (addr example_host) (example_response 200 [] []) []
             (dict_get [] ''url'' JNull) base_record = Next 80"
    by (simp add: url_stage_def dict_get_def)
  have g: "generic_stage example_env (example_response 200 [] []) [] (dict_get [] ''url'' JNull)
             (dict_set base_record ''port'' (JInt 80))
           = (None, Inr (JObj (base_record @ [(''port'', JInt 80)])))"
    by (simp add: generic_stage_def status_banner_def protocol_name_def example_response_def
          example_env_def headers_block_def body_block_def dict_get_def base_record_def)
  show ?thesis
    using run_generic [OF example_data_truthy example_data_reconcile
          example_data_required_fields tls_stage_without_tls u g]
    by simp
qed

text \<open>
  Claim C7: for every input, all collaborators and every host record, a value the function
  returns is the empty mapping or a mapping that has the key \<open>port\<close>.
\<close>

theorem port_always_set:
  assumes "outcome (zgrap_parser_http env data hostrec) = Inr r"
  shows "r = JObj [] \<or> (\<exists>d p. r = JObj d \<and> map_of d ''port'' = Some p)"
proof (cases env data hostrec rule: zgrap_parser_http_cases)
  case Empty
  with assms show ?thesis by simp
next
  case (Merge_raises e data1)
  with assms show ?thesis by simp
next
  case (Fields_raise data1 w e)
  with assms show ?thesis by simp
next
  case (Fields_return data1 w r')
  with assms required_fields_Return [of data1 w r'] show ?thesis by simp
next
  case (Tls_raises data1 w resp req url e)
  with assms show ?thesis by simp
next
  case (Url_raises data1 w resp req url res hostrec1 e)
  with assms show ?thesis by simp
next
  case (Url_returns data1 w resp req url res hostrec1 r')
  with assms have "r' = r" by simp
  with Url_returns(5) url_stage_port show ?thesis by (fastforce simp: has_port_def)
next
  case (Generic data1 w resp req url res hostrec1 port changed out)
  with assms have "out = Inr r" by simp
  with Generic(6) generic_stage_port [OF _ has_port_set] show ?thesis
    by (fastforce simp: has_port_def)
qed

theorem port_always_set_witness:
  "outcome (zgrap_parser_http example_env (example_data 200 [] []) example_host)
     = Inr (JObj (base_record @ [(''port'', JInt 80)]))
   \<and> (JObj (base_record @ [(''port'', JInt 80)]) = JObj []
      \<or> (\<exists>d p. JObj (base_record @ [(''port'', JInt 80)]) = JObj d \<and> map_of d ''port'' = Some p))"
proof -
  have h: "outcome (zgrap_parser_http example_env (example_data 200 [] []) example_host)
             = Inr (JObj (base_record @ [(''port'', JInt 80)]))"
    by (simp add: plain_example_run)
  from h port_always_set [OF h] show ?thesis by simp
qed

subsection \<open>Claim C8: the script of the headers\<close>



subsection \<open>Claim C9: the host record\<close>

lemma host_after_cases:
  fixes hostrec :: "'a hostrec_scheme"
  shows "host_after (zgrap_parser_http env data hostrec) = hostrec \<or>
    (\<exists>new. host_after (zgrap_parser_http env data hostrec)
              = hostrec\<lparr>hostnames := Some (hostname_list hostrec @ new)\<rparr>)"
proof (cases env data hostrec rule: zgrap_parser_http_cases)
  case (Url_raises data1 w resp req url res hostrec1 e)
  with tls_stage_host [OF Url_raises(4)] show ?thesis by simp
next
  case (Url_returns data1 w resp req url res hostrec1 r)
  with tls_stage_host [OF Url_returns(4)] show ?thesis by simp
next
  case (Generic data1 w resp req url res hostrec1 port changed out)
  with tls_stage_host [OF Generic(4)] show ?thesis by simp
qed simp_all

lemma tls_request_stage:
  "tls_stage example_env tls_request example_host =
     Inr (dict_set ssl_record ''scripts''
            (JList [ssl_cert_script ''Subject: commonName=www.example.com'' [example_cert]]),
          example_host\<lparr>hostnames := Some [example_hostname]\<rparr>)"
  by (simp add: tls_stage_def find_tls_def find_cert_def tls_request_def example_env_def
        append_script_base [OF ssl_record_scripts] add_cert_hostnames_def hostname_list_def
        example_host_def)

lemma host_after_tls:
  "truthy data \<Longrightarrow> reconcile data = (None, data1) \<Longrightarrow>
   required_fields data1 = (w, Next (resp, req, url)) \<Longrightarrow>
   tls_stage env req hostrec = Inr (res, hostrec1) \<Longrightarrow>
   host_after (zgrap_parser_http env data hostrec) = hostrec1"
  by (simp add: zgrap_parser_http_def split: flow.splits prod.splits)

lemma tls_request_host:
  "host_after (zgrap_parser_http example_env (example_data 200 tls_request []) example_host)
     = example_host\<lparr>hostnames := Some [example_hostname]\<rparr>"
  by (rule host_after_tls [OF example_data_truthy example_data_reconcile
        example_data_required_fields tls_request_stage])

text \<open>
  Claim C9: for every call, the address and every other field of the host record are
  after the call what they were before, and the list of host names after the call is the
  list before the call followed by zero or more names. The list is the record's own, or
  a new empty one that \<open>setdefault\<close> stores when the record has none: so the key is
  unchanged or holds the old names followed by new ones.
\<close>

theorem host_record_frame:
  fixes hostrec :: "'a hostrec_scheme"
  shows "addr (host_after (zgrap_parser_http env data hostrec)) = addr hostrec
       \<and> hostrec.more (host_after (zgrap_parser_http env data hostrec)) = hostrec.more hostrec
       \<and> (\<exists>new. hostname_list (host_after (zgrap_parser_http env data hostrec))
                   = hostname_list hostrec @ new)
       \<and> (hostnames (host_after (zgrap_parser_http env data hostrec)) = hostnames hostrec
          \<or> (\<exists>new. hostnames (host_after (zgrap_parser_http env data hostrec))
                      = Some (hostname_list hostrec @ new)))"
  using host_after_cases [of env data hostrec]
  by (auto simp: hostname_list_def)

theorem host_record_frame_witness:
  "addr (host_after (zgrap_parser_http example_env (example_data 200 tls_request []) example_host))
     = ''192.0.2.1''
   \<and> hostname_list (host_after (zgrap_parser_http example_env (example_data 200 tls_request [])
                                   example_host))
     = hostname_list example_host @ [example_hostname]"
  using host_record_frame [of example_env "example_data 200 tls_request []" example_host]
  unfolding tls_request_host
  by (simp add: hostname_list_def example_host_def)

subsection \<open>Claim C10: the argument is mutated in place\<close>

lemma example_status_banner:
  "status_banner example_env (example_response status req extra) =
     Inr (''HTTP/1.1 200 OK'' @ crlf)"
  by (simp add: status_banner_def protocol_name_def example_response_def example_env_def)

text \<open>
  Claim C10. First, when the argument is an object with an object under \<open>result\<close>, the
  argument after the call is the object without that key, updated with the contents of
  the wrapper (and, under \<open>response\<close>, possibly with flattened headers); unless the
  wrapper has a \<open>result\<close> key of its own the key is gone, and the merge of a second call
  finds nothing to do. Second, when the call reaches line 172 (the required fields are
  there, no detector takes the URL, the banner of line 164 is built) and the headers
  hold a bucket \<open>unknown\<close> of entries \<open>us\<close>, the headers of the argument after the call are
  the flattened ones: each entry is stored under its key and, unless an entry is itself
  named \<open>unknown\<close>, the bucket is gone and a second call finds none.
\<close>

theorem input_mutated_in_place:
  "(data = JObj d \<longrightarrow> map_of d ''result'' = Some (JObj r) \<longrightarrow>
      (\<exists>d'. data_after (zgrap_parser_http env data hostrec) = JObj d' \<and>
            (\<forall>k. k \<noteq> ''response'' \<longrightarrow>
                  map_of d' k = map_of (dict_update (dict_del d ''result'') r) k) \<and>
            (''result'' \<notin> fst ` set r \<longrightarrow>
               map_of d' ''result'' = None \<and> reconcile (JObj d') = (None, JObj d'))))
   \<and> (truthy data \<longrightarrow> reconcile data = (None, JObj d1) \<longrightarrow> has_required d1 resp req \<longrightarrow>
      tls_typed req \<longrightarrow> no_detector req \<longrightarrow> status_banner env resp = Inr banner \<longrightarrow>
      map_of resp ''headers'' = Some (JObj h) \<longrightarrow> ''unknown'' \<in> fst ` set h \<longrightarrow>
      unknown_pairs h = Some us \<longrightarrow>
        data_after (zgrap_parser_http env data hostrec) =
          JObj (dict_set d1 ''response''
                  (JObj (dict_set resp ''headers'' (JObj (flat_headers h us))))) \<and>
        (\<forall>k v. map_of (rev us) k = Some v \<longrightarrow> map_of (flat_headers h us) k = Some v) \<and>
        (''unknown'' \<notin> fst ` set us \<longrightarrow>
           map_of (flat_headers h us) ''unknown'' = None \<and>
           flatten_headers (JObj (flat_headers h us)) = (None, Inr (flat_headers h us))))"
proof (intro conjI impI)
  assume "data = JObj d" and "map_of d ''result'' = Some (JObj r)"
  then show "\<exists>d'. data_after (zgrap_parser_http env data hostrec) = JObj d' \<and>
            (\<forall>k. k \<noteq> ''response'' \<longrightarrow>
                  map_of d' k = map_of (dict_update (dict_del d ''result'') r) k) \<and>
            (''result'' \<notin> fst ` set r \<longrightarrow>
               map_of d' ''result'' = None \<and> reconcile (JObj d') = (None, JObj d'))"
    by (rule result_wrapper_merged)
next
  assume "truthy data" and "reconcile data = (None, JObj d1)" and "has_required d1 resp req"
    and "tls_typed req" and "no_detector req" and "status_banner env resp = Inr banner"
    and "map_of resp ''headers'' = Some (JObj h)" and "''unknown'' \<in> fst ` set h"
    and "unknown_pairs h = Some us"
  then show "data_after (zgrap_parser_http env data hostrec) =
          JObj (dict_set d1 ''response''
                  (JObj (dict_set resp ''headers'' (JObj (flat_headers h us)))))"
    by (rule unknown_bucket_removed)
next
  show "\<forall>k v. map_of (rev us) k = Some v \<longrightarrow> map_of (flat_headers h us) k = Some v"
    by (simp add: flat_headers_def map_of_dict_update)
next
  assume "''unknown'' \<notin> fst ` set us"
  then show "map_of (flat_headers h us) ''unknown'' = None"
    by (rule flat_headers_no_bucket)
next
  assume "''unknown'' \<notin> fst ` set us"
  then show "flatten_headers (JObj (flat_headers h us)) = (None, Inr (flat_headers h us))"
    by (rule flat_headers_no_bucket)
qed

theorem input_mutated_in_place_witness:
  "data_after (zgrap_parser_http example_env wrapped_example example_host) = reconciled_example \<and>
   wrapped_example \<noteq> reconciled_example \<and>
   field ''result'' wrapped_example \<noteq> None \<and>
   field ''result'' reconciled_example = None \<and>
   reconcile reconciled_example = (None, reconciled_example) \<and>
   data_after (zgrap_parser_http example_env reconciled_example
                 (host_after (zgrap_parser_http example_env wrapped_example example_host)))
     = reconciled_example"
proof -
  let ?d1 = "[(''status'', JStr ''success''), (''response'', JObj headers_response)]"
  let ?flat = "[(''content_type'', JList [JStr ''text/html'']), (''x-custom'', JStr ''1'')]"
  let ?resp2 = "example_response 200 get_request [(''headers'', JObj ?flat)]"
  let ?d2 = "[(''status'', JStr ''success''), (''response'', JObj ?resp2)]"
  have 1: "truthy wrapped_example" by (simp add: wrapped_example_def)
  have 2: "reconcile wrapped_example = (None, JObj ?d1)"
    by (simp add: wrapped_example_def reconcile_def dict_get_def dict_del_def dict_update_def)
  have 3: "has_required ?d1 headers_response get_request"
    by (simp add: has_required_def headers_response_def example_response_def)
  have 4: "tls_typed get_request"
    by (simp add: tls_typed_def get_request_def absent_or_object_def)
  have 5: "no_detector get_request"
    by (simp add: no_detector_def url_of_def dict_get_def get_request_def)
  have 6: "status_banner example_env headers_response = Inr (''HTTP/1.1 200 OK'' @ crlf)"
    by (simp add: headers_response_def example_status_banner)
  have 7: "map_of headers_response ''headers'' = Some (JObj example_headers)"
    by (simp add: headers_response_def example_response_def)
  have 8: "''unknown'' \<in> fst ` set example_headers" by (simp add: example_headers_def)
  have a: "data_after (zgrap_parser_http example_env wrapped_example example_host) =
             JObj (dict_set ?d1 ''response''
                    (JObj (dict_set headers_response ''headers''
                             (JObj (flat_headers example_headers [(''x-custom'', JStr ''1'')])))))"
    using input_mutated_in_place
            [where data = wrapped_example and env = example_env and hostrec = example_host
               and ?d1.0 = ?d1 and resp = headers_response and req = get_request
               and h = example_headers and us = "[(''x-custom'', JStr ''1'')]"
               and banner = "''HTTP/1.1 200 OK'' @ crlf"]
          1 2 3 4 5 6 7 8 example_headers_pairs
    by blast
  have b: "dict_set ?d1 ''response''
             (JObj (dict_set headers_response ''headers''
                      (JObj (flat_headers example_headers [(''x-custom'', JStr ''1'')])))) = ?d2"
    by (simp add: example_headers_flat headers_response_def example_response_def)
  have r: "reconciled_example = JObj ?d2" by (simp add: reconciled_example_def)
  have c1: "truthy reconciled_example" by (simp add: r)
  have c2: "reconcile reconciled_example = (None, JObj ?d2)"
    by (simp add: r reconcile_def)
  have c3: "has_required ?d2 ?resp2 get_request"
    by (simp add: has_required_def example_response_def)
  have c7: "map_of ?resp2 ''headers'' = Some (JObj ?flat)"
    by (simp add: example_response_def)
  have s: "data_after (zgrap_parser_http example_env reconciled_example hostrec) = JObj ?d2"
    for hostrec :: hostrec
    by (rule no_bucket_unchanged [OF c1 c2 c3 4 5 example_status_banner c7]) simp_all
  have w: "wrapped_example \<noteq> reconciled_example"
    by (simp add: wrapped_example_def reconciled_example_def)
  have f1: "field ''result'' wrapped_example \<noteq> None"
    by (simp add: field_def wrapped_example_def)
  have k: "wrapped_example =
             JObj [(''status'', JStr ''success''),
                   (''result'', JObj [(''response'', JObj headers_response)])]"
    by (simp add: wrapped_example_def)
  have "\<exists>d'. data_after (zgrap_parser_http example_env wrapped_example example_host) = JObj d' \<and>
             map_of d' ''result'' = None"
    using input_mutated_in_place
            [where data = wrapped_example and env = example_env and hostrec = example_host
               and d = "[(''status'', JStr ''success''),
                         (''result'', JObj [(''response'', JObj headers_response)])]"
               and r = "[(''response'', JObj headers_response)]", THEN conjunct1] k
    by auto
  then obtain d' where
    x: "data_after (zgrap_parser_http example_env wrapped_example example_host) = JObj d'"
    and y: "map_of d' ''result'' = None"
    by blast
  from x a b have "d' = ?d2" by simp
  with y have "map_of ?d2 ''result'' = None" by simp
  then have f2: "field ''result'' reconciled_example = None"
    unfolding r by (simp add: field_def)
  from a b r c2 s w f1 f2 show ?thesis by simp
qed

end
